theory Spec2Isabelle
  imports Complex_Main "HOL-Library.Sublist"
begin

section \<open>Data model\<close>

text \<open>
  JavaScript numbers are modelled as reals, \<open>Date.now()\<close> as an integer number of
  milliseconds, strings as \<open>string\<close>. An optional field (\<open>score?: number\<close>) is an
  \<open>option\<close>. Everything the code obtains from the browser or from face-api.js (the
  detector's result, the clock, a generated id) is an explicit argument of the model.
\<close>

datatype known_category = user | celebrity

datatype category = cat_user | cat_celebrity | cat_unknown

fun category_of :: "known_category \<Rightarrow> category" where
  "category_of user = cat_user"
| "category_of celebrity = cat_celebrity"

record KnownFace =
  kf_id :: string
  kf_name :: string
  kf_imageUrl :: string
  kf_category :: known_category

record Box =
  box_x :: real
  box_y :: real
  box_width :: real
  box_height :: real

record RecognizedFace =
  rf_id :: string
  rf_name :: string
  rf_category :: category
  rf_box :: Box
  rf_score :: "real option"

text \<open>The database of known faces (src/data/knownFaces.ts), in source order.\<close>

definition knownFaces :: "KnownFace list" where
  "knownFaces =
    [\<lparr>kf_id = ''ashal'', kf_name = ''ASHAL'',
      kf_imageUrl = ''/lovable-uploads/220e9480-454a-42c0-910b-d83696066ac6.png'',
      kf_category = user\<rparr>,
     \<lparr>kf_id = ''tom-cruise'', kf_name = ''Tom Cruise'',
      kf_imageUrl = ''https://upload.wikimedia.org/wikipedia/commons/3/33/Tom_Cruise_by_Gage_Skidmore_2.jpg'',
      kf_category = celebrity\<rparr>,
     \<lparr>kf_id = ''taylor-swift'', kf_name = ''Taylor Swift'',
      kf_imageUrl = ''https://upload.wikimedia.org/wikipedia/commons/b/b5/191125_Taylor_Swift_at_the_2019_American_Music_Awards_%28cropped%29.png'',
      kf_category = celebrity\<rparr>,
     \<lparr>kf_id = ''leonardo-dicaprio'', kf_name = ''Leonardo DiCaprio'',
      kf_imageUrl = ''https://upload.wikimedia.org/wikipedia/commons/4/46/Leonardo_Dicaprio_Cannes_2019.jpg'',
      kf_category = celebrity\<rparr>,
     \<lparr>kf_id = ''beyonce'',
      kf_name = ''Beyonc'' @ [CHR 0xE2, CHR 0x88, CHR 0x9A, CHR 0xC2, CHR 0xA9],
      kf_imageUrl = ''https://upload.wikimedia.org/wikipedia/commons/1/17/Beyonc%C3%A9_at_The_Lion_King_European_Premiere_2019.png'',
      kf_category = celebrity\<rparr>]"

section \<open>The matcher\<close>

type_synonym descriptor = "real list"

record LabeledFaceDescriptors =
  lfd_label :: string
  lfd_descriptor :: descriptor

record FaceMatch =
  fm_label :: string
  fm_distance :: real

record FaceMatcher =
  labeledDescriptors :: "LabeledFaceDescriptors list"
  distanceThreshold :: real

text \<open>
  Modelled from the spec: the matcher of face-api.js (\<open>FaceMatcher\<close>, \<open>findBestMatch\<close>)
  is a library called by the service and is not part of the sources. The spec places
  descriptors, fixed-length numeric vectors, in Euclidean descriptor space: this is the
  distance of two descriptors of the same length.
\<close>

definition euclideanDistance :: "descriptor \<Rightarrow> descriptor \<Rightarrow> real" where
  "euclideanDistance a b = sqrt (\<Sum>p\<leftarrow>zip a b. (fst p - snd p)\<^sup>2)"

text \<open>
  Modelled from the spec: the library's search for the best match is missing from the
  sources. The spec's contract: given a descriptor, compute the distance to every
  labeled descriptor and take the label with minimum distance; the first label achieving
  the minimum (load order) wins a tie. The contract is given for a non-empty set only:
  on an empty set the model has no result (\<open>None\<close>), which the callers treat as an
  exception of the call.
\<close>

fun matchDescriptor :: "descriptor \<Rightarrow> LabeledFaceDescriptors list \<Rightarrow> FaceMatch option" where
  "matchDescriptor q [] = None"
| "matchDescriptor q (l # ls) =
     (let cur = \<lparr>fm_label = lfd_label l,
                 fm_distance = euclideanDistance q (lfd_descriptor l)\<rparr>
      in case matchDescriptor q ls of
           None \<Rightarrow> Some cur
         | Some best \<Rightarrow> if fm_distance cur \<le> fm_distance best then Some cur else Some best)"

text \<open>
  Modelled from the spec: \<open>findBestMatch\<close> of the library is missing from the sources.
  The spec's contract: return the label with minimum distance if that minimum is below
  the threshold, else \<open>unknown\<close> together with that minimum distance.
\<close>

definition findBestMatch :: "FaceMatcher \<Rightarrow> descriptor \<Rightarrow> FaceMatch option" where
  "findBestMatch m q =
     (case matchDescriptor q (labeledDescriptors m) of
        None \<Rightarrow> None
      | Some best \<Rightarrow>
          if fm_distance best < distanceThreshold m then Some best
          else Some \<lparr>fm_label = ''unknown'', fm_distance = fm_distance best\<rparr>)"

text \<open>The distances from a query to the stored descriptors, in load order.\<close>

definition distances :: "descriptor \<Rightarrow> LabeledFaceDescriptors list \<Rightarrow> real list" where
  "distances q ls = map (\<lambda>l. euclideanDistance q (lfd_descriptor l)) ls"

text \<open>
  The spec's words for the result on a non-empty set: the minimum of the distances, and
  the label of the first stored descriptor (load order) at that distance.
\<close>

definition minDistance :: "descriptor \<Rightarrow> LabeledFaceDescriptors list \<Rightarrow> real" where
  "minDistance q ls = Min (set (distances q ls))"

definition firstNearestLabel :: "descriptor \<Rightarrow> LabeledFaceDescriptors list \<Rightarrow> string option" where
  "firstNearestLabel q ls =
     map_option lfd_label
       (find (\<lambda>l. euclideanDistance q (lfd_descriptor l) = minDistance q ls) ls)"

section \<open>The service: loading the reference faces\<close>

text \<open>The result of an awaited call into the browser or the library.\<close>

datatype 'a outcome = Throws | Returns 'a

datatype console = console_log string | console_warn string | console_error string

text \<open>
  \<open>loadLoop\<close> is the \<open>for (const face of knownFaces)\<close> loop of the current service:
  \<open>ext face\<close> is what fetching the image and running
  \<open>detectSingleFace(img).withFaceLandmarks().withFaceDescriptor()\<close> gives for that
  face: \<open>Throws\<close> (caught by the inner \<open>catch\<close>), \<open>Returns None\<close> (no face in the
  image) or \<open>Returns (Some d)\<close>. It returns the labeled descriptors pushed, in push
  order, and the console lines written.
\<close>

fun loadLoop :: "(KnownFace \<Rightarrow> descriptor option outcome) \<Rightarrow> KnownFace list
    \<Rightarrow> LabeledFaceDescriptors list \<times> console list" where
  "loadLoop ext [] = ([], [])"
| "loadLoop ext (face # faces) =
     (let (lds, out) = loadLoop ext faces in
      case ext face of
        Returns (Some d) \<Rightarrow>
          (\<lparr>lfd_label = kf_id face, lfd_descriptor = d\<rparr> # lds,
           console_log (''Successfully loaded face data for: '' @ kf_name face) # out)
      | Returns None \<Rightarrow>
          (lds, console_warn (''No face detected in reference image for: '' @ kf_name face) # out)
      | Throws \<Rightarrow>
          (lds, console_error (''Error processing reference face for '' @ kf_name face @ '':'') # out))"

record load_result =
  lr_returned :: bool
  lr_faceMatcher :: "FaceMatcher option"
  lr_console :: "console list"

text \<open>
  \<open>loadReferenceFaces\<close> (current service). \<open>fm0\<close> is the module variable
  \<open>faceMatcher\<close> before the call (initially \<open>null\<close>); the result carries its value
  after the call.
\<close>

definition loadReferenceFaces ::
    "(KnownFace \<Rightarrow> descriptor option outcome) \<Rightarrow> FaceMatcher option \<Rightarrow> load_result" where
  "loadReferenceFaces ext fm0 =
     (let (lds, out) = loadLoop ext knownFaces in
      if length lds = 0 then
        \<lparr>lr_returned = False, lr_faceMatcher = fm0,
         lr_console = out @ [console_warn
           ''No reference faces could be loaded. Face recognition will be limited to detection only.'']\<rparr>
      else
        \<lparr>lr_returned = True,
         lr_faceMatcher = Some \<lparr>labeledDescriptors = lds, distanceThreshold = 0.6\<rparr>,
         lr_console = out\<rparr>)"

text \<open>
  The loop of the older service variant (part_002). It has no \<open>try\<close> of its own: the
  first exception of \<open>fetchImage\<close> or of the detection leaves the loop (\<open>None\<close>), and an
  image without a face is passed over without a console line.
\<close>

fun loadLoop_old :: "(KnownFace \<Rightarrow> descriptor option outcome) \<Rightarrow> KnownFace list
    \<Rightarrow> LabeledFaceDescriptors list option" where
  "loadLoop_old ext [] = Some []"
| "loadLoop_old ext (face # faces) =
     (case ext face of
        Throws \<Rightarrow> None
      | Returns found \<Rightarrow>
          (case loadLoop_old ext faces of
             None \<Rightarrow> None
           | Some lds \<Rightarrow>
               (case found of
                  Some d \<Rightarrow> Some (\<lparr>lfd_label = kf_id face, lfd_descriptor = d\<rparr> # lds)
                | None \<Rightarrow> Some lds)))"

text \<open>
  \<open>loadReferenceFaces\<close> of the older service variant: an exception in the loop reaches
  the only \<open>catch\<close>, which logs and returns \<open>false\<close>; otherwise the matcher is built
  from whatever was collected. What the library's constructor does with an empty set is
  not in the sources; the model stores the set as it is.
\<close>

definition loadReferenceFaces_old ::
    "(KnownFace \<Rightarrow> descriptor option outcome) \<Rightarrow> FaceMatcher option \<Rightarrow> load_result" where
  "loadReferenceFaces_old ext fm0 =
     (case loadLoop_old ext knownFaces of
        None \<Rightarrow>
          \<lparr>lr_returned = False, lr_faceMatcher = fm0,
           lr_console = [console_error ''Error loading reference faces:'']\<rparr>
      | Some lds \<Rightarrow>
          \<lparr>lr_returned = True,
           lr_faceMatcher = Some \<lparr>labeledDescriptors = lds, distanceThreshold = 0.6\<rparr>,
           lr_console = []\<rparr>)"

section \<open>The service: recognizing faces\<close>

text \<open>
  A raw detection of \<open>detectAllFaces\<close>. \<open>det_stamp\<close> is the text
  \<open>${Date.now()}-${Math.random().toString(36).substr(2, 9)}\<close> the callback generates
  when it builds an id for this detection.
\<close>

record Detection =
  det_box :: Box
  det_stamp :: string

record DetectionWithDescriptor =
  dd_box :: Box
  dd_descriptor :: descriptor
  dd_stamp :: string

definition basicFace :: "Detection \<Rightarrow> RecognizedFace" where
  "basicFace detection =
     \<lparr>rf_id = ''unknown-'' @ det_stamp detection, rf_name = ''Face Detected'',
      rf_category = cat_unknown, rf_box = det_box detection, rf_score = None\<rparr>"

text \<open>
  The callback of \<open>detectionsWithDescriptors.map\<close>; \<open>None\<close> when \<open>findBestMatch\<close>
  has no result (an exception of the call).
\<close>

definition matchFace :: "FaceMatcher \<Rightarrow> DetectionWithDescriptor \<Rightarrow> RecognizedFace option" where
  "matchFace m detection =
     (case findBestMatch m (dd_descriptor detection) of
        None \<Rightarrow> None
      | Some match \<Rightarrow>
          (case find (\<lambda>face. kf_id face = fm_label match) knownFaces of
             Some knownFace \<Rightarrow>
               if fm_label match \<noteq> ''unknown'' then
                 Some \<lparr>rf_id = kf_id knownFace, rf_name = kf_name knownFace,
                       rf_category = category_of (kf_category knownFace),
                       rf_box = dd_box detection,
                       rf_score = Some (1 - fm_distance match)\<rparr>
               else
                 Some \<lparr>rf_id = ''unknown-'' @ dd_stamp detection, rf_name = ''Unknown'',
                       rf_category = cat_unknown, rf_box = dd_box detection,
                       rf_score = Some (1 - fm_distance match)\<rparr>
           | None \<Rightarrow>
               Some \<lparr>rf_id = ''unknown-'' @ dd_stamp detection, rf_name = ''Unknown'',
                     rf_category = cat_unknown, rf_box = dd_box detection,
                     rf_score = Some (1 - fm_distance match)\<rparr>))"

text \<open>\<open>xs.map(f)\<close> where \<open>f\<close> may throw: the first exception aborts the whole map.\<close>

fun mapThrowing :: "('a \<Rightarrow> 'b option) \<Rightarrow> 'a list \<Rightarrow> 'b list option" where
  "mapThrowing f [] = Some []"
| "mapThrowing f (x # xs) =
     (case f x of
        None \<Rightarrow> None
      | Some y \<Rightarrow> (case mapThrowing f xs of None \<Rightarrow> None | Some ys \<Rightarrow> Some (y # ys)))"

text \<open>
  \<open>recognizeFaces\<close> of the current service (src/services/faceRecognition.ts).
  \<open>faceMatcher\<close> is the module variable, \<open>detections\<close> the outcome of
  \<open>detectAllFaces(image)\<close>, \<open>detectionsWithDescriptors\<close> the outcome of the second
  pipeline with landmarks and descriptors.
\<close>

definition recognizeFaces :: "FaceMatcher option \<Rightarrow> Detection list outcome
    \<Rightarrow> DetectionWithDescriptor list outcome \<Rightarrow> RecognizedFace list" where
  "recognizeFaces faceMatcher detections detectionsWithDescriptors =
     (case detections of
        Throws \<Rightarrow> []
      | Returns dets \<Rightarrow>
          (case faceMatcher of
             None \<Rightarrow> map basicFace dets
           | Some m \<Rightarrow>
               (case detectionsWithDescriptors of
                  Throws \<Rightarrow> map basicFace dets
                | Returns dds \<Rightarrow>
                    (case mapThrowing (matchFace m) dds of
                       None \<Rightarrow> map basicFace dets
                     | Some faces \<Rightarrow> faces))))"

text \<open>\<open>recognizeFaces\<close> of the older service variant: no detection-only fallback.\<close>

definition recognizeFaces_old :: "FaceMatcher option
    \<Rightarrow> DetectionWithDescriptor list outcome \<Rightarrow> RecognizedFace list" where
  "recognizeFaces_old faceMatcher detections =
     (case faceMatcher of
        None \<Rightarrow> []
      | Some m \<Rightarrow>
          (case detections of
             Throws \<Rightarrow> []
           | Returns dds \<Rightarrow>
               (case mapThrowing (matchFace m) dds of None \<Rightarrow> [] | Some faces \<Rightarrow> faces)))"

section \<open>The component (face-api variant)\<close>

datatype toast = toast_info string | toast_success string | toast_error string

record Component =
  detections :: "RecognizedFace list"
  isStarted :: bool
  isModelLoading :: bool
  faceHistory :: "string list"
  detectionIntervalRef :: "nat option"
  lastSpokenRef :: "string \<times> int"
  srcObject :: bool
  toasts :: "toast list"
  drawn :: "RecognizedFace list list"
  spoken :: "string list"

text \<open>
  \<open>srcObject\<close> says whether a stream is attached to the video element; \<open>toasts\<close>,
  \<open>drawn\<close> and \<open>spoken\<close> are the logs of the calls to \<open>toast\<close>, \<open>drawFaces\<close> and
  \<open>synth.speak\<close> (the utterance's text), oldest first.

  The state variables a function of the component reads are those of the render that
  created it: \<open>Closure\<close> holds the values the running \<open>detectFaces\<close> sees.
\<close>

record Closure =
  c_isStarted :: bool
  c_isMuted :: bool
  c_confidence :: real

text \<open>
  What one tick obtains from outside: whether \<open>videoRef.current\<close>,
  \<open>canvasRef.current\<close> and the 2d context exist, what the awaited \<open>recognizeFaces\<close>
  resolves to, \<open>Date.now()\<close> and \<open>new Date().toLocaleTimeString()\<close>.
\<close>

record Env =
  env_video :: bool
  env_canvas :: bool
  env_ctx :: bool
  env_recognizedFaces :: "RecognizedFace list"
  env_now :: int
  env_timestamp :: string

definition initialComponent :: Component where
  "initialComponent =
     \<lparr>detections = [], isStarted = False, isModelLoading = False, faceHistory = [],
      detectionIntervalRef = None, lastSpokenRef = ('''', 0), srcObject = False,
      toasts = [], drawn = [], spoken = []\<rparr>"

text \<open>\<open>loadModels\<close>: \<open>modelsLoaded\<close> is what \<open>loadFaceRecognitionModels\<close> returned.\<close>

record models_result =
  mr_component :: Component
  mr_faceMatcher :: "FaceMatcher option"
  mr_console :: "console list"

definition loadModels :: "bool \<Rightarrow> (KnownFace \<Rightarrow> descriptor option outcome)
    \<Rightarrow> FaceMatcher option \<Rightarrow> Component \<Rightarrow> models_result" where
  "loadModels modelsLoaded ext fm0 s =
     (let s1 = s\<lparr>isModelLoading := True,
                 toasts := toasts s @ [toast_info ''Loading face recognition models...'']\<rparr>
      in if \<not> modelsLoaded then
           \<lparr>mr_component = s1\<lparr>isModelLoading := False,
              toasts := toasts s1 @ [toast_error ''Failed to load face recognition models'']\<rparr>,
            mr_faceMatcher = fm0,
            mr_console = [console_error ''Error loading models:'']\<rparr>
         else
           (let r = loadReferenceFaces ext fm0 in
            if \<not> lr_returned r then
              \<lparr>mr_component = s1\<lparr>isModelLoading := False,
                 toasts := toasts s1 @ [toast_error ''Failed to load face recognition models'']\<rparr>,
               mr_faceMatcher = lr_faceMatcher r,
               mr_console = lr_console r @ [console_error ''Error loading models:'']\<rparr>
            else
              \<lparr>mr_component = s1\<lparr>isModelLoading := False,
                 toasts := toasts s1 @ [toast_success ''Face recognition ready!'']\<rparr>,
               mr_faceMatcher = lr_faceMatcher r,
               mr_console = lr_console r\<rparr>))"

text \<open>
  \<open>stopCamera\<close>. The timer is cleared under \<open>if (detectionIntervalRef.current)\<close>: a
  handle 0 is falsy and stays.
\<close>

definition stopCamera :: "Component \<Rightarrow> Component" where
  "stopCamera s =
     s\<lparr>srcObject := False,
       detectionIntervalRef :=
         (case detectionIntervalRef s of
            None \<Rightarrow> None
          | Some h \<Rightarrow> if h = 0 then Some h else None),
       isStarted := False, detections := [],
       toasts := toasts s @ [toast_info ''Camera stopped'']\<rparr>"

text \<open>
  The filter \<open>face.score && face.score > confidence\<close>: a missing score and the
  score 0 are falsy.
\<close>

definition passes :: "real \<Rightarrow> RecognizedFace \<Rightarrow> bool" where
  "passes confidence face =
     (case rf_score face of None \<Rightarrow> False | Some sc \<Rightarrow> sc \<noteq> 0 \<and> sc > confidence)"

definition filterFaces :: "real \<Rightarrow> RecognizedFace list \<Rightarrow> RecognizedFace list" where
  "filterFaces confidence recognizedFaces = filter (passes confidence) recognizedFaces"

definition drawFaces :: "RecognizedFace list \<Rightarrow> Component \<Rightarrow> Component" where
  "drawFaces faces s = s\<lparr>drawn := drawn s @ [faces]\<rparr>"

definition utteranceText :: "RecognizedFace \<Rightarrow> string" where
  "utteranceText face =
     (if rf_name face = ''ASHAL'' then ''Hello ASHAL, welcome back!''
      else if rf_category face = cat_celebrity then ''Celebrity detected: '' @ rf_name face
      else ''Unknown person detected'')"

text \<open>The body of \<open>faces.forEach\<close> in \<open>handleAudioAlerts\<close>.\<close>

definition alertFace :: "int \<Rightarrow> Component \<Rightarrow> RecognizedFace \<Rightarrow> Component" where
  "alertFace now s face =
     (if fst (lastSpokenRef s) = rf_name face \<and> now - snd (lastSpokenRef s) < 5000 then s
      else s\<lparr>spoken := spoken s @ [utteranceText face],
             lastSpokenRef := (rf_name face, now)\<rparr>)"

definition handleAudioAlerts :: "bool \<Rightarrow> int \<Rightarrow> RecognizedFace list \<Rightarrow> Component \<Rightarrow> Component" where
  "handleAudioAlerts isMuted now faces s =
     (if isMuted \<or> length faces = 0 then s else foldl (alertFace now) s faces)"

definition historyEntry :: "string \<Rightarrow> RecognizedFace \<Rightarrow> string" where
  "historyEntry timestamp face = rf_name face @ '' detected at '' @ timestamp"

definition updateFaceHistory :: "string list \<Rightarrow> string list \<Rightarrow> string list" where
  "updateFaceHistory newEntries prev = take 10 (newEntries @ prev)"

text \<open>
  \<open>detectFaces\<close> in two parts: the guard that runs before the \<open>await\<close>, and the
  continuation that runs when \<open>recognizeFaces\<close> has resolved.
\<close>

definition detectFaces_enter :: "Closure \<Rightarrow> Env \<Rightarrow> bool" where
  "detectFaces_enter c e =
     (\<not> (\<not> env_video e \<or> \<not> env_canvas e \<or> \<not> c_isStarted c) \<and> env_ctx e)"

definition detectFaces_resume :: "Closure \<Rightarrow> Env \<Rightarrow> Component \<Rightarrow> Component" where
  "detectFaces_resume c e s =
     (let filteredFaces = filterFaces (c_confidence c) (env_recognizedFaces e);
          s1 = s\<lparr>detections := filteredFaces\<rparr>;
          s2 = drawFaces filteredFaces s1;
          s3 = handleAudioAlerts (c_isMuted c) (env_now e) filteredFaces s2
      in if length filteredFaces > 0 then
           s3\<lparr>faceHistory :=
                updateFaceHistory (map (historyEntry (env_timestamp e)) filteredFaces)
                  (faceHistory s3)\<rparr>
         else s3)"

definition detectFaces :: "Closure \<Rightarrow> Env \<Rightarrow> Component \<Rightarrow> Component" where
  "detectFaces c e s = (if detectFaces_enter c e then detectFaces_resume c e s else s)"

text \<open>
  The timer calls \<open>detectFaces\<close> once per tick; \<open>runTicks\<close> runs a sequence of
  ticks, oldest first, each with the closure and the outside values it sees.
  \<open>tickEntries\<close> are the history entries a tick creates.
\<close>

fun runTicks :: "(Closure \<times> Env) list \<Rightarrow> Component \<Rightarrow> Component" where
  "runTicks [] s = s"
| "runTicks (t # ts) s = runTicks ts (detectFaces (fst t) (snd t) s)"

definition tickEntries :: "Closure \<times> Env \<Rightarrow> string list" where
  "tickEntries t =
     (if detectFaces_enter (fst t) (snd t) then
        map (historyEntry (env_timestamp (snd t)))
          (filterFaces (c_confidence (fst t)) (env_recognizedFaces (snd t)))
      else [])"


section \<open>The component (object-detector variant)\<close>

text \<open>
  The older component (part_000) runs a generic object detector and keeps the results
  labelled \<open>person\<close>. \<open>raw_now\<close> is what \<open>Date.now()\<close> returns when the \<open>map\<close>
  callback builds the id of that detection.
\<close>

record CornerBox =
  cb_xmin :: real
  cb_ymin :: real
  cb_xmax :: real
  cb_ymax :: real

record RawDetection =
  raw_label :: string
  raw_score :: real
  raw_box :: CornerBox
  raw_now :: int

record FaceDetection =
  fd_id :: string
  fd_label :: string
  fd_score :: real
  fd_box :: CornerBox

text \<open>Decimal text of a number, as a template literal prints it.\<close>

fun showNat :: "nat \<Rightarrow> string" where
  "showNat n =
     (if n < 10 then [''0123456789'' ! n]
      else showNat (n div 10) @ [''0123456789'' ! (n mod 10)])"

declare showNat.simps [simp del]

definition showInt :: "int \<Rightarrow> string" where
  "showInt i = (if i < 0 then ''-'' @ showNat (nat (- i)) else showNat (nat i))"

record ObjectComponent =
  od_detections :: "FaceDetection list"
  od_isStarted :: bool
  od_faceHistory :: "string list"
  od_detectionIntervalRef :: "nat option"
  od_lastSpokenRef :: "string \<times> int"
  od_srcObject :: bool
  od_toasts :: "toast list"
  od_drawn :: "FaceDetection list list"
  od_spoken :: "string list"

record ObjectClosure =
  oc_faceDetectorModel :: bool
  oc_isStarted :: bool
  oc_isMuted :: bool
  oc_confidence :: real

text \<open>
  \<open>oe_detector t\<close> is what the awaited \<open>faceDetectorModel(video, {threshold: t,
  percentage: true})\<close> gives; \<open>oe_width\<close> and \<open>oe_height\<close> are the canvas size.
\<close>

record ObjectEnv =
  oe_video :: bool
  oe_canvas :: bool
  oe_ctx :: bool
  oe_width :: real
  oe_height :: real
  oe_detector :: "real \<Rightarrow> RawDetection list outcome"
  oe_now :: int
  oe_timestamp :: string

definition initialObjectComponent :: ObjectComponent where
  "initialObjectComponent =
     \<lparr>od_detections = [], od_isStarted = False, od_faceHistory = [],
      od_detectionIntervalRef = None, od_lastSpokenRef = ('''', 0), od_srcObject = False,
      od_toasts = [], od_drawn = [], od_spoken = []\<rparr>"

definition toFaceDetection :: "real \<Rightarrow> real \<Rightarrow> nat \<times> RawDetection \<Rightarrow> FaceDetection" where
  "toFaceDetection w h p =
     \<lparr>fd_id = ''face-'' @ showNat (fst p) @ ''-'' @ showInt (raw_now (snd p)),
      fd_label = ''Face'',
      fd_score = raw_score (snd p),
      fd_box = \<lparr>cb_xmin = cb_xmin (raw_box (snd p)) * w, cb_ymin = cb_ymin (raw_box (snd p)) * h,
                cb_xmax = cb_xmax (raw_box (snd p)) * w, cb_ymax = cb_ymax (raw_box (snd p)) * h\<rparr>\<rparr>"

definition faceDetectionsOf :: "real \<Rightarrow> real \<Rightarrow> RawDetection list \<Rightarrow> FaceDetection list" where
  "faceDetectionsOf w h results =
     map (toFaceDetection w h)
       (List.enumerate 0 (filter (\<lambda>detection. raw_label detection = ''person'') results))"

definition drawFaces_od :: "FaceDetection list \<Rightarrow> ObjectComponent \<Rightarrow> ObjectComponent" where
  "drawFaces_od faces s = s\<lparr>od_drawn := od_drawn s @ [faces]\<rparr>"

definition speak_od :: "string \<Rightarrow> ObjectComponent \<Rightarrow> ObjectComponent" where
  "speak_od text s = s\<lparr>od_spoken := od_spoken s @ [text]\<rparr>"

definition handleAudioAlerts_od ::
    "bool \<Rightarrow> int \<Rightarrow> FaceDetection list \<Rightarrow> ObjectComponent \<Rightarrow> ObjectComponent" where
  "handleAudioAlerts_od isMuted now faces s =
     (if isMuted \<or> length faces = 0 then s
      else if fst (od_lastSpokenRef s) = ''Face'' \<and> now - snd (od_lastSpokenRef s) < 5000 then s
      else
        (let s1 = (if length faces = 1 then speak_od ''Face detected.'' s
                   else if length faces > 1
                     then speak_od (showNat (length faces) @ '' faces detected.'') s
                   else s)
         in s1\<lparr>od_lastSpokenRef := (''Face'', now)\<rparr>))"


definition detectFaces_od_enter :: "ObjectClosure \<Rightarrow> ObjectEnv \<Rightarrow> bool" where
  "detectFaces_od_enter c e =
     (\<not> (\<not> oc_faceDetectorModel c \<or> \<not> oe_video e \<or> \<not> oe_canvas e \<or> \<not> oc_isStarted c)
      \<and> oe_ctx e)"

definition detectFaces_od_resume ::
    "ObjectClosure \<Rightarrow> ObjectEnv \<Rightarrow> ObjectComponent \<Rightarrow> ObjectComponent" where
  "detectFaces_od_resume c e s =
     (case oe_detector e (oc_confidence c) of
        Throws \<Rightarrow> s
      | Returns results \<Rightarrow>
          (let faceDetections = faceDetectionsOf (oe_width e) (oe_height e) results;
               s1 = s\<lparr>od_detections := faceDetections\<rparr>;
               s2 = drawFaces_od faceDetections s1;
               s3 = handleAudioAlerts_od (oc_isMuted c) (oe_now e) faceDetections s2
           in if length faceDetections > 0 then
                s3\<lparr>od_faceHistory :=
                     updateFaceHistory [''Face detected at '' @ oe_timestamp e]
                       (od_faceHistory s3)\<rparr>
              else s3))"

definition detectFaces_od :: "ObjectClosure \<Rightarrow> ObjectEnv \<Rightarrow> ObjectComponent \<Rightarrow> ObjectComponent" where
  "detectFaces_od c e s =
     (if detectFaces_od_enter c e then detectFaces_od_resume c e s else s)"

text \<open>
  A sequence of ticks of this variant, the history entry a tick creates, and the text of
  the alert for a non-empty list of faces.
\<close>

fun runTicks_od :: "(ObjectClosure \<times> ObjectEnv) list \<Rightarrow> ObjectComponent \<Rightarrow> ObjectComponent" where
  "runTicks_od [] s = s"
| "runTicks_od (t # ts) s = runTicks_od ts (detectFaces_od (fst t) (snd t) s)"

definition tickEntries_od :: "ObjectClosure \<times> ObjectEnv \<Rightarrow> string list" where
  "tickEntries_od t =
     (if detectFaces_od_enter (fst t) (snd t) then
        (case oe_detector (snd t) (oc_confidence (fst t)) of
           Throws \<Rightarrow> []
         | Returns results \<Rightarrow>
             if faceDetectionsOf (oe_width (snd t)) (oe_height (snd t)) results = [] then []
             else [''Face detected at '' @ oe_timestamp (snd t)])
      else [])"


section \<open>The running application (face-api variant)\<close>

text \<open>
  The component's functions are created anew by every render and see the state of that
  render. \<open>App\<close> adds to the component what is needed to follow which render a running
  function comes from: the two remaining state variables, the active intervals (the
  handle \<open>setInterval\<close> returned and the closure whose \<open>detectFaces\<close> the callback
  calls), the \<open>startCamera\<close> calls that await the camera, and the \<open>detectFaces\<close>
  calls that await \<open>recognizeFaces\<close>.
\<close>

record App =
  app_component :: Component
  app_isMuted :: bool
  app_confidence :: real
  app_timers :: "(nat \<times> Closure) list"
  app_pendingStarts :: "Closure list"
  app_inFlight :: "Closure list"


text \<open>What the functions of the current render see.\<close>

definition closureOf :: "App \<Rightarrow> Closure" where
  "closureOf a =
     \<lparr>c_isStarted = isStarted (app_component a), c_isMuted = app_isMuted a,
      c_confidence = app_confidence a\<rparr>"

definition clearInterval :: "nat \<Rightarrow> (nat \<times> Closure) list \<Rightarrow> (nat \<times> Closure) list" where
  "clearInterval h ts = filter (\<lambda>t. fst t \<noteq> h) ts"

text \<open>
  \<open>if (detectionIntervalRef.current) window.clearInterval(detectionIntervalRef.current)\<close>,
  as \<open>stopCamera\<close> and \<open>startDetectionLoop\<close> both begin: a handle 0 is falsy.
\<close>

definition clearDetectionInterval :: "App \<Rightarrow> (nat \<times> Closure) list" where
  "clearDetectionInterval a =
     (case detectionIntervalRef (app_component a) of
        None \<Rightarrow> app_timers a
      | Some h \<Rightarrow> if h = 0 then app_timers a else clearInterval h (app_timers a))"

text \<open>
  \<open>startDetectionLoop\<close> of the render with closure \<open>c\<close>; \<open>h\<close> is the handle
  \<open>setInterval\<close> returns. The callback calls the \<open>detectFaces\<close> of the same render.
\<close>

definition startDetectionLoop :: "Closure \<Rightarrow> nat \<Rightarrow> App \<Rightarrow> App" where
  "startDetectionLoop c h a =
     a\<lparr>app_timers := clearDetectionInterval a @ [(h, c)],
       app_component := (app_component a)\<lparr>detectionIntervalRef := Some h\<rparr>\<rparr>"

text \<open>What \<open>getUserMedia\<close> and \<open>video.play()\<close> come to.\<close>

datatype media = NoStream | NoPlay | Playing

text \<open>
  \<open>startCamera\<close> of the render with closure \<open>c\<close>, from the point where the camera
  promise settles; \<open>hasVideo\<close> says whether \<open>videoRef.current\<close> exists.
\<close>

definition startCamera_settles :: "Closure \<Rightarrow> bool \<Rightarrow> media \<Rightarrow> nat \<Rightarrow> App \<Rightarrow> App" where
  "startCamera_settles c hasVideo outcome h a =
     (case outcome of
        NoStream \<Rightarrow>
          a\<lparr>app_component := (app_component a)
             \<lparr>toasts := toasts (app_component a) @
                [toast_error ''Failed to access camera. Please check permissions.'']\<rparr>\<rparr>
      | NoPlay \<Rightarrow>
          if hasVideo then
            a\<lparr>app_component := (app_component a)
               \<lparr>srcObject := True,
                toasts := toasts (app_component a) @
                  [toast_error ''Failed to access camera. Please check permissions.'']\<rparr>\<rparr>
          else a
      | Playing \<Rightarrow>
          if hasVideo then
            startDetectionLoop c h
              (a\<lparr>app_component := (app_component a)
                 \<lparr>srcObject := True, isStarted := True,
                  toasts := toasts (app_component a) @
                    [toast_success ''Camera started successfully!'']\<rparr>\<rparr>)
          else a)"

definition stopCamera_app :: "App \<Rightarrow> App" where
  "stopCamera_app a =
     a\<lparr>app_timers := clearDetectionInterval a,
       app_component := stopCamera (app_component a)\<rparr>"

definition toggleMute :: "App \<Rightarrow> App" where
  "toggleMute a =
     a\<lparr>app_isMuted := \<not> app_isMuted a,
       app_component := (app_component a)
         \<lparr>toasts := toasts (app_component a) @
            [toast_info (if \<not> c_isMuted (closureOf a) then ''Audio alerts muted''
                         else ''Audio alerts enabled'')]\<rparr>\<rparr>"

definition handleConfidenceChange :: "real \<Rightarrow> App \<Rightarrow> App" where
  "handleConfidenceChange v a = a\<lparr>app_confidence := v\<rparr>"

text \<open>
  What can happen to the mounted component. \<open>Click\<close> is the camera button, bound as
  \<open>onClick={isStarted ? stopCamera : startCamera}\<close> by the current render. The indices
  say which pending \<open>startCamera\<close> call, which active interval and which awaiting
  \<open>detectFaces\<close> call the event belongs to.
\<close>

datatype event =
    Click
  | CameraSettles nat bool media nat
  | Tick nat Env
  | DetectorSettles nat Env
  | ToggleMute
  | ConfidenceChange real

definition without :: "nat \<Rightarrow> 'a list \<Rightarrow> 'a list" where
  "without i xs = take i xs @ drop (Suc i) xs"

fun step :: "event \<Rightarrow> App \<Rightarrow> App" where
  "step Click a =
     (if isStarted (app_component a) then stopCamera_app a
      else a\<lparr>app_pendingStarts := app_pendingStarts a @ [closureOf a]\<rparr>)"
| "step (CameraSettles i hasVideo outcome h) a =
     (if i < length (app_pendingStarts a) then
        startCamera_settles (app_pendingStarts a ! i) hasVideo outcome h
          (a\<lparr>app_pendingStarts := without i (app_pendingStarts a)\<rparr>)
      else a)"
| "step (Tick i e) a =
     (if i < length (app_timers a) then
        (if detectFaces_enter (snd (app_timers a ! i)) e
         then a\<lparr>app_inFlight := app_inFlight a @ [snd (app_timers a ! i)]\<rparr>
         else a)
      else a)"
| "step (DetectorSettles i e) a =
     (if i < length (app_inFlight a) then
        a\<lparr>app_inFlight := without i (app_inFlight a),
          app_component := detectFaces_resume (app_inFlight a ! i) e (app_component a)\<rparr>
      else a)"
| "step ToggleMute a = toggleMute a"
| "step (ConfidenceChange v) a = handleConfidenceChange v a"



section \<open>Notions used to state the claims about loading\<close>

text \<open>
  What a reference identity contributes to the matcher, and the console line written
  for an identity that contributes nothing.
\<close>

definition loaded :: "(KnownFace \<Rightarrow> descriptor option outcome) \<Rightarrow> KnownFace
    \<Rightarrow> LabeledFaceDescriptors option" where
  "loaded ext face =
     (case ext face of
        Returns (Some d) \<Rightarrow> Some \<lparr>lfd_label = kf_id face, lfd_descriptor = d\<rparr>
      | Returns None \<Rightarrow> None
      | Throws \<Rightarrow> None)"

definition failureLine :: "(KnownFace \<Rightarrow> descriptor option outcome) \<Rightarrow> KnownFace \<Rightarrow> console" where
  "failureLine ext face =
     (case ext face of
        Throws \<Rightarrow> console_error (''Error processing reference face for '' @ kf_name face @ '':'')
      | Returns r \<Rightarrow> console_warn (''No face detected in reference image for: '' @ kf_name face))"

text \<open>
  What the claims say of a face returned for a detection: its score is 1 minus the
  nearest stored distance, at least 0.4 unless the category is \<open>unknown\<close>, and the
  face is \<open>Unknown\<close> with a score of 0 or below when that distance is 1 or more.
\<close>

definition scored :: "FaceMatcher \<Rightarrow> DetectionWithDescriptor \<Rightarrow> RecognizedFace \<Rightarrow> bool" where
  "scored m detection face =
     (rf_score face = Some (1 - minDistance (dd_descriptor detection) (labeledDescriptors m)) \<and>
      (rf_category face \<noteq> cat_unknown \<longrightarrow>
         0.4 \<le> 1 - minDistance (dd_descriptor detection) (labeledDescriptors m)) \<and>
      (1 \<le> minDistance (dd_descriptor detection) (labeledDescriptors m) \<longrightarrow>
         rf_name face = ''Unknown'' \<and> rf_category face = cat_unknown \<and>
         1 - minDistance (dd_descriptor detection) (labeledDescriptors m) \<le> 0))"

section \<open>Example inputs\<close>

definition exampleMatcher :: FaceMatcher where
  "exampleMatcher =
     \<lparr>labeledDescriptors =
        [\<lparr>lfd_label = ''ashal'', lfd_descriptor = [0, 0]\<rparr>,
         \<lparr>lfd_label = ''tom-cruise'', lfd_descriptor = [1, 0]\<rparr>,
         \<lparr>lfd_label = ''beyonce'', lfd_descriptor = [0, 0]\<rparr>],
      distanceThreshold = 0.6\<rparr>"

definition exampleReferences :: "KnownFace \<Rightarrow> descriptor option outcome" where
  "exampleReferences face =
     (if kf_id face = ''ashal'' then Returns (Some [0, 0])
      else if kf_id face = ''tom-cruise'' then Throws
      else if kf_id face = ''taylor-swift'' then Returns None
      else Returns (Some [1, 0]))"

definition twinReferences :: "KnownFace \<Rightarrow> descriptor option outcome" where
  "twinReferences face =
     (if kf_id face = ''ashal'' \<or> kf_id face = ''tom-cruise'' then Returns (Some [0, 0])
      else Returns None)"

definition exampleDetection :: Detection where
  "exampleDetection =
     \<lparr>det_box = \<lparr>box_x = 10, box_y = 20, box_width = 100, box_height = 120\<rparr>,
      det_stamp = ''1700000000000-k3j2h1g0f''\<rparr>"

definition exampleDescribed :: "descriptor \<Rightarrow> DetectionWithDescriptor" where
  "exampleDescribed d =
     \<lparr>dd_box = \<lparr>box_x = 10, box_y = 20, box_width = 100, box_height = 120\<rparr>,
      dd_descriptor = d, dd_stamp = ''1700000000000-k3j2h1g0f''\<rparr>"

definition twinMatcher :: FaceMatcher where
  "twinMatcher =
     \<lparr>labeledDescriptors =
        [\<lparr>lfd_label = ''ashal'', lfd_descriptor = [0, 0]\<rparr>,
         \<lparr>lfd_label = ''tom-cruise'', lfd_descriptor = [0, 0]\<rparr>],
      distanceThreshold = 0.6\<rparr>"

definition loadedMatcher :: FaceMatcher where
  "loadedMatcher =
     \<lparr>labeledDescriptors =
        [\<lparr>lfd_label = ''ashal'', lfd_descriptor = [0, 0]\<rparr>,
         \<lparr>lfd_label = ''leonardo-dicaprio'', lfd_descriptor = [1, 0]\<rparr>,
         \<lparr>lfd_label = ''beyonce'', lfd_descriptor = [1, 0]\<rparr>],
      distanceThreshold = 0.6\<rparr>"

definition noFaceReferences :: "KnownFace \<Rightarrow> descriptor option outcome" where
  "noFaceReferences face = Returns None"

definition exampleBox :: Box where
  "exampleBox = \<lparr>box_x = 10, box_y = 20, box_width = 100, box_height = 120\<rparr>"

definition ashalFace :: RecognizedFace where
  "ashalFace =
     \<lparr>rf_id = ''ashal'', rf_name = ''ASHAL'', rf_category = cat_user, rf_box = exampleBox,
      rf_score = Some 0.9\<rparr>"


definition weakFace :: RecognizedFace where
  "weakFace =
     \<lparr>rf_id = ''unknown-1700000000000-k3j2h1g0f'', rf_name = ''Unknown'',
      rf_category = cat_unknown, rf_box = exampleBox, rf_score = Some 0.3\<rparr>"

definition runningClosure :: Closure where
  "runningClosure = \<lparr>c_isStarted = True, c_isMuted = False, c_confidence = 0.5\<rparr>"

definition runningComponent :: Component where
  "runningComponent =
     initialComponent\<lparr>isStarted := True, srcObject := True, detectionIntervalRef := Some 1\<rparr>"

definition exampleEnv :: "RecognizedFace list \<Rightarrow> int \<Rightarrow> Env" where
  "exampleEnv faces now =
     \<lparr>env_video = True, env_canvas = True, env_ctx = True, env_recognizedFaces = faces,
      env_now = now, env_timestamp = ''10:15:30 AM''\<rparr>"

definition personAt :: "int \<Rightarrow> RawDetection" where
  "personAt now =
     \<lparr>raw_label = ''person'', raw_score = 0.9,
      raw_box = \<lparr>cb_xmin = 0.25, cb_ymin = 0.25, cb_xmax = 0.5, cb_ymax = 0.75\<rparr>,
      raw_now = now\<rparr>"

definition runningObjectClosure :: ObjectClosure where
  "runningObjectClosure =
     \<lparr>oc_faceDetectorModel = True, oc_isStarted = True, oc_isMuted = False,
      oc_confidence = 0.5\<rparr>"

definition onePerson :: "real \<Rightarrow> RawDetection list outcome" where
  "onePerson threshold = Returns [personAt 1000]"

definition objectEnv :: "int \<Rightarrow> ObjectEnv" where
  "objectEnv now =
     \<lparr>oe_video = True, oe_canvas = True, oe_ctx = True, oe_width = 1280, oe_height = 720,
      oe_detector = onePerson, oe_now = now, oe_timestamp = ''10:15:30 AM''\<rparr>"



definition missingFaceReferences :: "KnownFace \<Rightarrow> descriptor option outcome" where
  "missingFaceReferences face =
     (if kf_id face = ''ashal'' then Returns (Some [0, 0])
      else if kf_id face = ''taylor-swift'' then Returns None
      else Returns (Some [1, 0]))"


section \<open>Properties of the matcher\<close>

lemma euclideanDistance_nonneg: "0 \<le> euclideanDistance a b"
  unfolding euclideanDistance_def
  by (intro real_sqrt_ge_zero sum_list_nonneg) auto

lemma euclideanDistance_same: "euclideanDistance a a = 0"
proof -
  have "(\<Sum>p\<leftarrow>zip a a. (fst p - snd p)\<^sup>2) = (0::real)"
    by (induction a) auto
  then show ?thesis by (simp add: euclideanDistance_def)
qed

lemma matchDescriptor_None: "matchDescriptor q ls = None \<longleftrightarrow> ls = []"
  by (cases ls) (auto simp: Let_def split: option.splits)

lemma matchDescriptor_distance:
  "ls \<noteq> [] \<Longrightarrow> \<exists>m. matchDescriptor q ls = Some m \<and> fm_distance m = minDistance q ls"
proof (induction ls)
  case Nil
  then show ?case by simp
next
  case (Cons l ls)
  show ?case
  proof (cases "ls = []")
    case True
    then show ?thesis by (simp add: minDistance_def distances_def)
  next
    case False
    with Cons.IH obtain b where b: "matchDescriptor q ls = Some b"
      "fm_distance b = Min (set (distances q ls))"
      by (auto simp: minDistance_def)
    have ne: "set (distances q ls) \<noteq> {}" using False by (simp add: distances_def)
    have "Min (set (distances q (l # ls))) =
          min (euclideanDistance q (lfd_descriptor l)) (Min (set (distances q ls)))"
      using ne by (simp add: distances_def)
    with b show ?thesis
      by (auto simp: minDistance_def Let_def min_def)
  qed
qed

lemma minDistance_Cons:
  "ls \<noteq> [] \<Longrightarrow> minDistance q (l # ls) =
     min (euclideanDistance q (lfd_descriptor l)) (minDistance q ls)"
  by (simp add: minDistance_def distances_def)

lemma minDistance_single: "minDistance q [l] = euclideanDistance q (lfd_descriptor l)"
  by (simp add: minDistance_def distances_def)

lemma matchDescriptor_label:
  "ls \<noteq> [] \<Longrightarrow> \<exists>m. matchDescriptor q ls = Some m \<and> firstNearestLabel q ls = Some (fm_label m)"
proof (induction ls)
  case Nil
  then show ?case by simp
next
  case (Cons l ls)
  show ?case
  proof (cases "ls = []")
    case True
    then show ?thesis by (simp add: firstNearestLabel_def minDistance_single)
  next
    case False
    with Cons.IH obtain b where b: "matchDescriptor q ls = Some b"
      "firstNearestLabel q ls = Some (fm_label b)" by auto
    from matchDescriptor_distance [OF False, of q] b(1)
    have d: "fm_distance b = minDistance q ls" by simp
    show ?thesis
    proof (cases "euclideanDistance q (lfd_descriptor l) \<le> minDistance q ls")
      case True
      then show ?thesis using b d False
        by (simp add: firstNearestLabel_def minDistance_Cons Let_def min_def)
    next
      case gt: False
      then have "minDistance q (l # ls) = minDistance q ls"
        using False by (simp add: minDistance_Cons min_def)
      then show ?thesis using b d gt False
        by (simp add: firstNearestLabel_def Let_def)
    qed
  qed
qed

lemma matchDescriptor_spec:
  assumes "ls \<noteq> []"
  shows "\<exists>L. firstNearestLabel q ls = Some L \<and>
    matchDescriptor q ls = Some \<lparr>fm_label = L, fm_distance = minDistance q ls\<rparr>"
proof -
  from matchDescriptor_label [OF assms, of q] obtain m where
    m: "matchDescriptor q ls = Some m" "firstNearestLabel q ls = Some (fm_label m)" by auto
  from matchDescriptor_distance [OF assms, of q] m(1)
  have "fm_distance m = minDistance q ls" by simp
  then have "m = \<lparr>fm_label = fm_label m, fm_distance = minDistance q ls\<rparr>" by simp
  with m show ?thesis by metis
qed

lemma minDistance_le:
  "l \<in> set ls \<Longrightarrow> minDistance q ls \<le> euclideanDistance q (lfd_descriptor l)"
  by (simp add: minDistance_def distances_def)

lemma findBestMatch_spec:
  assumes "labeledDescriptors m \<noteq> []"
  shows "\<exists>L. firstNearestLabel q (labeledDescriptors m) = Some L \<and>
     findBestMatch m q =
       Some \<lparr>fm_label = (if minDistance q (labeledDescriptors m) < distanceThreshold m
                         then L else ''unknown''),
             fm_distance = minDistance q (labeledDescriptors m)\<rparr>"
proof -
  from matchDescriptor_spec [OF assms, of q] obtain L where
    L: "firstNearestLabel q (labeledDescriptors m) = Some L"
       "matchDescriptor q (labeledDescriptors m) =
          Some \<lparr>fm_label = L, fm_distance = minDistance q (labeledDescriptors m)\<rparr>" by auto
  then show ?thesis by (simp add: findBestMatch_def)
qed

section \<open>Claims about the matcher\<close>

text \<open>
  C3. Given a query descriptor and a non-empty set of labeled descriptors with the
  threshold 0.6, the matcher's distance is the minimum of the distances from the query to
  every labeled descriptor; it returns the first label (in load order) at that minimum
  when the minimum is below 0.6, and otherwise, in particular when the minimum exceeds
  0.6, the label \<open>unknown\<close> together with that minimum distance.
\<close>

theorem matcher_contract:
  assumes "labeledDescriptors m \<noteq> []" and "distanceThreshold m = 0.6"
  shows "\<exists>L. firstNearestLabel q (labeledDescriptors m) = Some L \<and>
     (\<forall>l\<in>set (labeledDescriptors m).
        minDistance q (labeledDescriptors m) \<le> euclideanDistance q (lfd_descriptor l)) \<and>
     findBestMatch m q =
       Some \<lparr>fm_label = (if minDistance q (labeledDescriptors m) < 0.6 then L else ''unknown''),
             fm_distance = minDistance q (labeledDescriptors m)\<rparr> \<and>
     (0.6 < minDistance q (labeledDescriptors m) \<longrightarrow>
        findBestMatch m q =
          Some \<lparr>fm_label = ''unknown'', fm_distance = minDistance q (labeledDescriptors m)\<rparr>)"
proof -
  from findBestMatch_spec [OF assms(1), of q] assms(2) obtain L where
    L: "firstNearestLabel q (labeledDescriptors m) = Some L"
       "findBestMatch m q =
       Some \<lparr>fm_label = (if minDistance q (labeledDescriptors m) < 0.6 then L else ''unknown''),
             fm_distance = minDistance q (labeledDescriptors m)\<rparr>" by auto
  then show ?thesis by (auto simp: minDistance_le)
qed

theorem matcher_contract_witness:
  "labeledDescriptors exampleMatcher \<noteq> [] \<and> distanceThreshold exampleMatcher = 0.6 \<and>
   findBestMatch exampleMatcher [0, 0] = Some \<lparr>fm_label = ''ashal'', fm_distance = 0\<rparr> \<and>
   findBestMatch exampleMatcher [0, 1] = Some \<lparr>fm_label = ''unknown'', fm_distance = 1\<rparr>"
proof -
  have ne: "labeledDescriptors exampleMatcher \<noteq> []" and thr: "distanceThreshold exampleMatcher = 0.6"
    by (simp_all add: exampleMatcher_def)
  have d0: "minDistance [0, 0] (labeledDescriptors exampleMatcher) = 0"
    by (simp add: exampleMatcher_def minDistance_def distances_def euclideanDistance_def)
  have d1: "minDistance [0, 1] (labeledDescriptors exampleMatcher) = 1"
    by (simp add: exampleMatcher_def minDistance_def distances_def euclideanDistance_def)
  have l0: "firstNearestLabel [0, 0] (labeledDescriptors exampleMatcher) = Some ''ashal''"
    unfolding firstNearestLabel_def d0
    by (simp add: exampleMatcher_def euclideanDistance_def)
  from matcher_contract [OF ne thr, of "[0, 0]"] matcher_contract [OF ne thr, of "[0, 1]"]
  show ?thesis using ne thr d0 d1 l0 by auto
qed

section \<open>Properties of the loader\<close>

lemma loadLoop_fst: "fst (loadLoop ext faces) = List.map_filter (loaded ext) faces"
  by (induction faces)
     (auto simp: loaded_def List.map_filter_simps split: prod.splits outcome.splits option.splits)

lemma loadLoop_console:
  "face \<in> set faces \<Longrightarrow> loaded ext face = None \<Longrightarrow> failureLine ext face \<in> set (snd (loadLoop ext faces))"
  by (induction faces)
     (auto simp: loaded_def failureLine_def split: prod.splits outcome.splits option.splits)

lemma map_filter_removeAll:
  "f x = None \<Longrightarrow> List.map_filter f (removeAll x xs) = List.map_filter f xs"
  by (induction xs) (auto simp: List.map_filter_simps split: option.splits)

lemma loaded_label: "loaded ext face = Some l \<Longrightarrow> lfd_label l = kf_id face"
  by (auto simp: loaded_def split: outcome.splits option.splits)

lemma set_map_filter: "set (List.map_filter f xs) = {y. \<exists>x\<in>set xs. f x = Some y}"
  by (induction xs) (auto simp: List.map_filter_simps split: option.splits)

lemma knownFaces_id_list:
  "map kf_id knownFaces =
     [''ashal'', ''tom-cruise'', ''taylor-swift'', ''leonardo-dicaprio'', ''beyonce'']"
  by (simp add: knownFaces_def)

lemma knownFaces_distinct: "distinct (map kf_id knownFaces)"
  unfolding knownFaces_id_list by simp

lemma knownFaces_ids: "f \<in> set knownFaces \<Longrightarrow> g \<in> set knownFaces \<Longrightarrow> kf_id f = kf_id g \<Longrightarrow> f = g"
  using knownFaces_distinct by (simp add: distinct_map inj_on_def)

lemma find_by_key:
  "distinct (map f xs) \<Longrightarrow> k \<in> set xs \<Longrightarrow> find (\<lambda>x. f x = f k) xs = Some k"
  by (induction xs) auto

lemma knownFaces_find:
  "k \<in> set knownFaces \<Longrightarrow> find (\<lambda>face. kf_id face = kf_id k) knownFaces = Some k"
  using knownFaces_distinct by (rule find_by_key)

lemma knownFaces_not_unknown: "k \<in> set knownFaces \<Longrightarrow> kf_id k \<noteq> ''unknown''"
proof -
  assume "k \<in> set knownFaces"
  then have "kf_id k \<in> set (map kf_id knownFaces)" by simp
  then show ?thesis unfolding knownFaces_id_list by auto
qed

lemma loadReferenceFaces_success:
  "List.map_filter (loaded ext) knownFaces \<noteq> [] \<Longrightarrow>
   loadReferenceFaces ext fm0 =
     \<lparr>lr_returned = True,
      lr_faceMatcher = Some \<lparr>labeledDescriptors = List.map_filter (loaded ext) knownFaces,
                              distanceThreshold = 0.6\<rparr>,
      lr_console = snd (loadLoop ext knownFaces)\<rparr>"
  using loadLoop_fst [of ext knownFaces]
  by (cases "loadLoop ext knownFaces") (simp add: loadReferenceFaces_def)

lemma loadReferenceFaces_empty:
  "List.map_filter (loaded ext) knownFaces = [] \<Longrightarrow>
   loadReferenceFaces ext fm0 =
     \<lparr>lr_returned = False, lr_faceMatcher = fm0,
      lr_console = snd (loadLoop ext knownFaces) @ [console_warn
           ''No reference faces could be loaded. Face recognition will be limited to detection only.'']\<rparr>"
  using loadLoop_fst [of ext knownFaces]
  by (cases "loadLoop ext knownFaces") (simp add: loadReferenceFaces_def)

lemma loadLoop_old_throws:
  "face \<in> set faces \<Longrightarrow> ext face = Throws \<Longrightarrow> loadLoop_old ext faces = None"
  by (induction faces) (auto split: outcome.splits option.splits)

lemma loadLoop_old_returns:
  "\<forall>f\<in>set faces. ext f \<noteq> Throws \<Longrightarrow>
   loadLoop_old ext faces = Some (List.map_filter (loaded ext) faces)"
  by (induction faces)
     (auto simp: loaded_def List.map_filter_simps split: outcome.splits option.splits)

section \<open>Claims about loading the reference faces\<close>

text \<open>
  C7 (amended). In the current service a failure to process one reference image (an
  exception while fetching or detecting, or no face in the image) is local to that
  identity: the loop goes on and stores exactly what the remaining identities
  contribute, the failed identity's label is not among the stored labels, a console line
  is written for it, and whenever some other identity yields a descriptor the call
  returns \<open>true\<close> with a matcher built from the remaining identities. In the older
  service only an image without a face is local: when no image raises an exception and
  some other identity yields a descriptor, the matcher is built from the remaining
  identities, with no console line for the skipped one; an exception for one image ends the whole load, which logs once, returns
  \<open>false\<close> and leaves the matcher as it was.
\<close>

theorem reference_failure_is_local:
  assumes "face \<in> set knownFaces" and "ext face = Throws \<or> ext face = Returns None"
  shows "(fst (loadLoop ext knownFaces) = List.map_filter (loaded ext) (removeAll face knownFaces)
    \<and> kf_id face \<notin> lfd_label ` set (fst (loadLoop ext knownFaces))
    \<and> failureLine ext face \<in> set (snd (loadLoop ext knownFaces))
    \<and> ((\<exists>other\<in>set knownFaces. \<exists>d. ext other = Returns (Some d)) \<longrightarrow>
         loadReferenceFaces ext fm0 =
           \<lparr>lr_returned = True,
            lr_faceMatcher =
              Some \<lparr>labeledDescriptors = List.map_filter (loaded ext) (removeAll face knownFaces),
                    distanceThreshold = 0.6\<rparr>,
            lr_console = snd (loadLoop ext knownFaces)\<rparr>))
    \<and> ((\<forall>f\<in>set knownFaces. ext f \<noteq> Throws) \<and>
        (\<exists>other\<in>set knownFaces. \<exists>d. ext other = Returns (Some d)) \<longrightarrow>
         loadReferenceFaces_old ext fm0 =
           \<lparr>lr_returned = True,
            lr_faceMatcher =
              Some \<lparr>labeledDescriptors = List.map_filter (loaded ext) (removeAll face knownFaces),
                    distanceThreshold = 0.6\<rparr>,
            lr_console = []\<rparr>)
    \<and> (ext face = Throws \<longrightarrow>
         loadReferenceFaces_old ext fm0 =
           \<lparr>lr_returned = False, lr_faceMatcher = fm0,
            lr_console = [console_error ''Error loading reference faces:'']\<rparr>)"
proof -
  have none: "loaded ext face = None"
    using assms(2) by (auto simp: loaded_def)
  have a: "fst (loadLoop ext knownFaces) = List.map_filter (loaded ext) (removeAll face knownFaces)"
    by (simp add: loadLoop_fst map_filter_removeAll [of "loaded ext" face, OF none])
  have b: "kf_id face \<notin> lfd_label ` set (fst (loadLoop ext knownFaces))"
  proof
    assume "kf_id face \<in> lfd_label ` set (fst (loadLoop ext knownFaces))"
    then obtain g l where g: "g \<in> set knownFaces" "loaded ext g = Some l" "lfd_label l = kf_id face"
      by (auto simp: loadLoop_fst set_map_filter)
    then have "kf_id g = kf_id face" using loaded_label by fastforce
    with g(1) assms(1) have "g = face" by (rule knownFaces_ids)
    with g(2) none show False by simp
  qed
  have c: "failureLine ext face \<in> set (snd (loadLoop ext knownFaces))"
    using assms(1) none by (rule loadLoop_console)
  have d: "loadReferenceFaces ext fm0 =
           \<lparr>lr_returned = True,
            lr_faceMatcher =
              Some \<lparr>labeledDescriptors = List.map_filter (loaded ext) (removeAll face knownFaces),
                    distanceThreshold = 0.6\<rparr>,
            lr_console = snd (loadLoop ext knownFaces)\<rparr>"
    if "\<exists>other\<in>set knownFaces. \<exists>d. ext other = Returns (Some d)"
  proof -
    from that obtain other d where "other \<in> set knownFaces" "ext other = Returns (Some d)" by auto
    then have "\<lparr>lfd_label = kf_id other, lfd_descriptor = d\<rparr> \<in> set (List.map_filter (loaded ext) knownFaces)"
      by (auto simp: set_map_filter loaded_def intro!: bexI [of _ other])
    then have "List.map_filter (loaded ext) knownFaces \<noteq> []" by auto
    from loadReferenceFaces_success [OF this, of fm0] show ?thesis
      by (simp add: map_filter_removeAll [of "loaded ext" face, OF none])
  qed
  from a b c d
  have current: "fst (loadLoop ext knownFaces) = List.map_filter (loaded ext) (removeAll face knownFaces)
    \<and> kf_id face \<notin> lfd_label ` set (fst (loadLoop ext knownFaces))
    \<and> failureLine ext face \<in> set (snd (loadLoop ext knownFaces))
    \<and> ((\<exists>other\<in>set knownFaces. \<exists>d. ext other = Returns (Some d)) \<longrightarrow>
         loadReferenceFaces ext fm0 =
           \<lparr>lr_returned = True,
            lr_faceMatcher =
              Some \<lparr>labeledDescriptors = List.map_filter (loaded ext) (removeAll face knownFaces),
                    distanceThreshold = 0.6\<rparr>,
            lr_console = snd (loadLoop ext knownFaces)\<rparr>)"
    by blast
  have skipped: "loadReferenceFaces_old ext fm0 =
           \<lparr>lr_returned = True,
            lr_faceMatcher =
              Some \<lparr>labeledDescriptors = List.map_filter (loaded ext) (removeAll face knownFaces),
                    distanceThreshold = 0.6\<rparr>,
            lr_console = []\<rparr>"
    if "\<forall>f\<in>set knownFaces. ext f \<noteq> Throws"
    using loadLoop_old_returns [OF that]
    by (simp add: loadReferenceFaces_old_def map_filter_removeAll [of "loaded ext" face, OF none])
  have fatal: "loadReferenceFaces_old ext fm0 =
           \<lparr>lr_returned = False, lr_faceMatcher = fm0,
            lr_console = [console_error ''Error loading reference faces:'']\<rparr>"
    if "ext face = Throws"
    using loadLoop_old_throws [of face knownFaces ext, OF assms(1) that]
    by (simp add: loadReferenceFaces_old_def)
  from current skipped fatal show ?thesis by blast
qed

text \<open>
  C7 as stated fails on the older service: the second reference image raises an
  exception, and although the first one yields a descriptor the load returns \<open>false\<close>
  and builds no matcher.
\<close>

theorem reference_failure_is_local_counterexample:
  "knownFaces ! 1 \<in> set knownFaces \<and> exampleReferences (knownFaces ! 1) = Throws \<and>
   exampleReferences (knownFaces ! 0) = Returns (Some [0, 0]) \<and>
   loadReferenceFaces_old exampleReferences None =
     \<lparr>lr_returned = False, lr_faceMatcher = None,
      lr_console = [console_error ''Error loading reference faces:'']\<rparr>"
  by (simp add: knownFaces_def exampleReferences_def loadReferenceFaces_old_def)

theorem reference_failure_is_local_witness:
  "knownFaces ! 1 \<in> set knownFaces \<and> exampleReferences (knownFaces ! 1) = Throws \<and>
   kf_id (knownFaces ! 1) \<notin> lfd_label ` set (fst (loadLoop exampleReferences knownFaces)) \<and>
   lr_returned (loadReferenceFaces exampleReferences None) \<and>
   \<not> lr_returned (loadReferenceFaces_old exampleReferences None) \<and>
   knownFaces ! 2 \<in> set knownFaces \<and> missingFaceReferences (knownFaces ! 2) = Returns None \<and>
   lr_returned (loadReferenceFaces_old missingFaceReferences None) \<and>
   lr_console (loadReferenceFaces_old missingFaceReferences None) = []"
proof -
  have m: "knownFaces ! 1 \<in> set knownFaces" by (simp add: knownFaces_def)
  have t: "exampleReferences (knownFaces ! 1) = Throws"
    by (simp add: knownFaces_def exampleReferences_def)
  have o: "\<exists>other\<in>set knownFaces. \<exists>d. exampleReferences other = Returns (Some d)"
    by (simp add: knownFaces_def exampleReferences_def)
  have f: "exampleReferences (knownFaces ! 1) = Throws \<or>
      exampleReferences (knownFaces ! 1) = Returns None"
    using t by simp
  note th = reference_failure_is_local [of "knownFaces ! 1" exampleReferences None, OF m f]
  from th have b: "kf_id (knownFaces ! 1) \<notin> lfd_label ` set (fst (loadLoop exampleReferences knownFaces))"
    by blast
  from th o have "loadReferenceFaces exampleReferences None =
           \<lparr>lr_returned = True,
            lr_faceMatcher =
              Some \<lparr>labeledDescriptors =
                      List.map_filter (loaded exampleReferences) (removeAll (knownFaces ! 1) knownFaces),
                    distanceThreshold = 0.6\<rparr>,
            lr_console = snd (loadLoop exampleReferences knownFaces)\<rparr>"
    by blast
  then have r: "lr_returned (loadReferenceFaces exampleReferences None)" by simp
  from th t have "loadReferenceFaces_old exampleReferences None =
           \<lparr>lr_returned = False, lr_faceMatcher = None,
            lr_console = [console_error ''Error loading reference faces:'']\<rparr>"
    by blast
  then have x: "\<not> lr_returned (loadReferenceFaces_old exampleReferences None)" by simp
  have m2: "knownFaces ! 2 \<in> set knownFaces" by (simp add: knownFaces_def)
  have t2: "missingFaceReferences (knownFaces ! 2) = Returns None"
    by (simp add: knownFaces_def missingFaceReferences_def)
  have f2: "missingFaceReferences (knownFaces ! 2) = Throws \<or>
      missingFaceReferences (knownFaces ! 2) = Returns None"
    using t2 by simp
  have nt: "\<forall>f\<in>set knownFaces. missingFaceReferences f \<noteq> Throws"
    by (simp add: missingFaceReferences_def)
  note th2 = reference_failure_is_local [of "knownFaces ! 2" missingFaceReferences None, OF m2 f2]
  have o2: "\<exists>other\<in>set knownFaces. \<exists>d. missingFaceReferences other = Returns (Some d)"
    by (simp add: knownFaces_def missingFaceReferences_def)
  from th2 nt o2 have "loadReferenceFaces_old missingFaceReferences None =
           \<lparr>lr_returned = True,
            lr_faceMatcher =
              Some \<lparr>labeledDescriptors =
                      List.map_filter (loaded missingFaceReferences)
                        (removeAll (knownFaces ! 2) knownFaces),
                    distanceThreshold = 0.6\<rparr>,
            lr_console = []\<rparr>"
    by blast
  then have y: "lr_returned (loadReferenceFaces_old missingFaceReferences None) \<and>
      lr_console (loadReferenceFaces_old missingFaceReferences None) = []" by simp
  from m t b r x m2 t2 y show ?thesis by blast
qed

lemma minDistance_nonneg: "ls \<noteq> [] \<Longrightarrow> 0 \<le> minDistance q ls"
  by (simp add: minDistance_def distances_def euclideanDistance_nonneg)

lemma minDistance_stored:
  assumes "l \<in> set ls"
  shows "minDistance (lfd_descriptor l) ls = 0"
proof -
  have "ls \<noteq> []" using assms by auto
  then have "0 \<le> minDistance (lfd_descriptor l) ls" by (rule minDistance_nonneg)
  moreover have "minDistance (lfd_descriptor l) ls \<le> 0"
    using minDistance_le [OF assms, of "lfd_descriptor l"] by (simp add: euclideanDistance_same)
  ultimately show ?thesis by simp
qed

lemma loadReferenceFaces_built:
  assumes "lr_faceMatcher (loadReferenceFaces ext None) = Some m"
  shows "m = \<lparr>labeledDescriptors = List.map_filter (loaded ext) knownFaces, distanceThreshold = 0.6\<rparr>"
    and "labeledDescriptors m \<noteq> []"
proof -
  have ne: "List.map_filter (loaded ext) knownFaces \<noteq> []"
  proof
    assume "List.map_filter (loaded ext) knownFaces = []"
    from loadReferenceFaces_empty [OF this, of None] assms show False by simp
  qed
  from loadReferenceFaces_success [OF ne, of None] assms
  show "m = \<lparr>labeledDescriptors = List.map_filter (loaded ext) knownFaces, distanceThreshold = 0.6\<rparr>"
    by simp
  with ne show "labeledDescriptors m \<noteq> []" by simp
qed

lemma matchFace_known:
  assumes "findBestMatch m (dd_descriptor detection) = Some \<lparr>fm_label = kf_id k, fm_distance = x\<rparr>"
    and "k \<in> set knownFaces"
  shows "matchFace m detection =
     Some \<lparr>rf_id = kf_id k, rf_name = kf_name k, rf_category = category_of (kf_category k),
           rf_box = dd_box detection, rf_score = Some (1 - x)\<rparr>"
  using assms knownFaces_find [OF assms(2)] knownFaces_not_unknown [OF assms(2)]
  by (simp add: matchFace_def)

section \<open>Claims about recognizing faces\<close>

text \<open>
  C8 (amended). For the matcher built by loading the reference faces and every stored
  labeled descriptor \<open>l\<close>, querying with a descriptor identical to the one of \<open>l\<close>
  returns distance 0 and the label of the first stored descriptor, in load order, at
  distance 0 from it; \<open>recognizeFaces\<close> then reports the known identity with that
  label with similarity score 1. The label is the one of \<open>l\<close> whenever every stored
  descriptor at distance 0 carries it.
\<close>

theorem stored_descriptor_matches:
  assumes built: "lr_faceMatcher (loadReferenceFaces ext None) = Some m"
    and stored: "l \<in> set (labeledDescriptors m)"
    and query: "dd_descriptor detection = lfd_descriptor l"
  shows "\<exists>first k.
      find (\<lambda>l'. euclideanDistance (lfd_descriptor l) (lfd_descriptor l') = 0)
        (labeledDescriptors m) = Some first
    \<and> findBestMatch m (lfd_descriptor l) = Some \<lparr>fm_label = lfd_label first, fm_distance = 0\<rparr>
    \<and> k \<in> set knownFaces \<and> kf_id k = lfd_label first
    \<and> matchFace m detection =
        Some \<lparr>rf_id = kf_id k, rf_name = kf_name k, rf_category = category_of (kf_category k),
              rf_box = dd_box detection, rf_score = Some 1\<rparr>
    \<and> ((\<forall>l'\<in>set (labeledDescriptors m).
           euclideanDistance (lfd_descriptor l) (lfd_descriptor l') = 0 \<longrightarrow>
           lfd_label l' = lfd_label l) \<longrightarrow> lfd_label first = lfd_label l)"
proof -
  let ?d = "lfd_descriptor l" and ?ls = "labeledDescriptors m"
  note m = loadReferenceFaces_built [OF built]
  have thr: "distanceThreshold m = 0.6" using m(1) by simp
  have min0: "minDistance ?d ?ls = 0" using stored by (rule minDistance_stored)
  from findBestMatch_spec [OF m(2), of ?d] obtain L where
    L: "firstNearestLabel ?d ?ls = Some L"
       "findBestMatch m ?d = Some \<lparr>fm_label = L, fm_distance = 0\<rparr>"
    using thr min0 by auto
  from L(1) obtain first where
    first: "find (\<lambda>l'. euclideanDistance ?d (lfd_descriptor l') = 0) ?ls = Some first"
      "lfd_label first = L"
    by (auto simp: firstNearestLabel_def min0)
  from first(1) have fin: "first \<in> set ?ls" and f0: "euclideanDistance ?d (lfd_descriptor first) = 0"
    by (auto simp: find_Some_iff)
  from fin m(1) obtain k where k: "k \<in> set knownFaces" "loaded ext k = Some first"
    by (auto simp: set_map_filter)
  then have kid: "kf_id k = lfd_label first" using loaded_label by fastforce
  have "findBestMatch m (dd_descriptor detection) = Some \<lparr>fm_label = kf_id k, fm_distance = 0\<rparr>"
    using L(2) first(2) kid query by simp
  from matchFace_known [OF this k(1)]
  have mf: "matchFace m detection =
        Some \<lparr>rf_id = kf_id k, rf_name = kf_name k, rf_category = category_of (kf_category k),
              rf_box = dd_box detection, rf_score = Some 1\<rparr>" by simp
  have last: "lfd_label first = lfd_label l"
    if "\<forall>l'\<in>set ?ls. euclideanDistance ?d (lfd_descriptor l') = 0 \<longrightarrow> lfd_label l' = lfd_label l"
    using that fin f0 by blast
  from first L(2) k(1) kid mf last show ?thesis by blast
qed

text \<open>
  C8 as stated fails when two identities have the same descriptor: the second one is
  stored, and a query identical to it returns the first one's label.
\<close>

theorem stored_descriptor_matches_counterexample:
  "lr_faceMatcher (loadReferenceFaces twinReferences None) = Some twinMatcher \<and>
   \<lparr>lfd_label = ''tom-cruise'', lfd_descriptor = [0, 0]\<rparr> \<in> set (labeledDescriptors twinMatcher) \<and>
   findBestMatch twinMatcher [0, 0] = Some \<lparr>fm_label = ''ashal'', fm_distance = 0\<rparr> \<and>
   fm_label (the (findBestMatch twinMatcher [0, 0])) \<noteq> ''tom-cruise''"
  by (simp add: loadReferenceFaces_def knownFaces_def twinReferences_def twinMatcher_def
      findBestMatch_def euclideanDistance_def)

theorem stored_descriptor_matches_witness:
  "lr_faceMatcher (loadReferenceFaces exampleReferences None) = Some loadedMatcher \<and>
   \<lparr>lfd_label = ''ashal'', lfd_descriptor = [0, 0]\<rparr> \<in> set (labeledDescriptors loadedMatcher) \<and>
   dd_descriptor (exampleDescribed [0, 0]) = [0, 0] \<and>
   findBestMatch loadedMatcher [0, 0] = Some \<lparr>fm_label = ''ashal'', fm_distance = 0\<rparr>"
proof -
  let ?l = "\<lparr>lfd_label = ''ashal'', lfd_descriptor = [0, 0]\<rparr>"
  have h1: "lr_faceMatcher (loadReferenceFaces exampleReferences None) = Some loadedMatcher"
    by (simp add: loadReferenceFaces_def knownFaces_def exampleReferences_def loadedMatcher_def)
  have h2: "?l \<in> set (labeledDescriptors loadedMatcher)"
    by (simp add: loadedMatcher_def)
  have h3: "dd_descriptor (exampleDescribed [0, 0]) = lfd_descriptor ?l"
    by (simp add: exampleDescribed_def)
  have only: "\<forall>l'\<in>set (labeledDescriptors loadedMatcher).
           euclideanDistance (lfd_descriptor ?l) (lfd_descriptor l') = 0 \<longrightarrow>
           lfd_label l' = lfd_label ?l"
    by (simp add: loadedMatcher_def euclideanDistance_def)
  from stored_descriptor_matches [OF h1 h2 h3] only
  have "findBestMatch loadedMatcher [0, 0] = Some \<lparr>fm_label = ''ashal'', fm_distance = 0\<rparr>"
    by auto
  with h1 h2 h3 show ?thesis by simp
qed

lemma mapThrowing_total:
  "\<forall>x\<in>set xs. \<exists>y. f x = Some y \<and> P x y \<Longrightarrow>
   \<exists>ys. mapThrowing f xs = Some ys \<and> list_all2 P xs ys"
  by (induction xs) auto

lemma matchFace_score:
  assumes "labeledDescriptors m \<noteq> []" and "distanceThreshold m = 0.6"
  shows "\<exists>face. matchFace m detection = Some face \<and>
     rf_score face = Some (1 - minDistance (dd_descriptor detection) (labeledDescriptors m)) \<and>
     (rf_category face \<noteq> cat_unknown \<longrightarrow>
        0.4 \<le> 1 - minDistance (dd_descriptor detection) (labeledDescriptors m)) \<and>
     (1 \<le> minDistance (dd_descriptor detection) (labeledDescriptors m) \<longrightarrow>
        rf_name face = ''Unknown'' \<and> rf_category face = cat_unknown \<and>
        1 - minDistance (dd_descriptor detection) (labeledDescriptors m) \<le> 0)"
proof -
  from findBestMatch_spec [OF assms(1), of "dd_descriptor detection"] assms(2)
  obtain L where "findBestMatch m (dd_descriptor detection) =
       Some \<lparr>fm_label = (if minDistance (dd_descriptor detection) (labeledDescriptors m) < 0.6
                         then L else ''unknown''),
             fm_distance = minDistance (dd_descriptor detection) (labeledDescriptors m)\<rparr>"
    by auto
  then show ?thesis
    by (auto simp: matchFace_def split: option.splits)
qed

text \<open>
  C10 (amended). When a matcher exists (a non-empty set, threshold 0.6) and the pipeline
  with descriptors returns, \<open>recognizeFaces\<close> (both variants of the service) returns
  one face per detection, whose score is 1 minus the best-match distance; a face whose
  category is not \<open>unknown\<close> has a score of at least 0.4; and a detection whose nearest
  stored distance is 1 or more is reported as \<open>Unknown\<close> with a score of 0 or below.
\<close>

theorem score_is_one_minus_distance:
  assumes "labeledDescriptors m \<noteq> []" and "distanceThreshold m = 0.6"
  shows "list_all2 (scored m) dds (recognizeFaces (Some m) (Returns dets) (Returns dds)) \<and>
         list_all2 (scored m) dds (recognizeFaces_old (Some m) (Returns dds))"
proof -
  have "\<forall>x\<in>set dds. \<exists>y. matchFace m x = Some y \<and> scored m x y"
    using matchFace_score [OF assms] by (simp add: scored_def)
  from mapThrowing_total [OF this] obtain faces where
    "mapThrowing (matchFace m) dds = Some faces" "list_all2 (scored m) dds faces" by auto
  then show ?thesis by (simp add: recognizeFaces_def recognizeFaces_old_def)
qed

text \<open>
  C10 as stated fails in the current service when the pipeline with descriptors throws
  while a matcher exists: the faces returned are the fallback entries, which carry no
  score.
\<close>

theorem score_is_one_minus_distance_counterexample:
  "map rf_score (recognizeFaces (Some exampleMatcher) (Returns [exampleDetection]) Throws) = [None]"
  by (simp add: recognizeFaces_def basicFace_def)

theorem score_is_one_minus_distance_witness:
  "labeledDescriptors exampleMatcher \<noteq> [] \<and> distanceThreshold exampleMatcher = 0.6 \<and>
   map rf_score (recognizeFaces (Some exampleMatcher) (Returns [exampleDetection])
      (Returns [exampleDescribed [0, 0], exampleDescribed [0, 1]])) = [Some 1, Some 0]"
proof -
  have ne: "labeledDescriptors exampleMatcher \<noteq> []" and thr: "distanceThreshold exampleMatcher = 0.6"
    by (simp_all add: exampleMatcher_def)
  have d0: "minDistance [0, 0] (labeledDescriptors exampleMatcher) = 0"
    by (simp add: exampleMatcher_def minDistance_def distances_def euclideanDistance_def)
  have d1: "minDistance [0, 1] (labeledDescriptors exampleMatcher) = 1"
    by (simp add: exampleMatcher_def minDistance_def distances_def euclideanDistance_def)
  from score_is_one_minus_distance [OF ne thr, of "[exampleDescribed [0, 0], exampleDescribed [0, 1]]"
      "[exampleDetection]"]
  have "list_all2 (scored exampleMatcher) [exampleDescribed [0, 0], exampleDescribed [0, 1]]
     (recognizeFaces (Some exampleMatcher) (Returns [exampleDetection])
        (Returns [exampleDescribed [0, 0], exampleDescribed [0, 1]]))" by simp
  then have "map rf_score (recognizeFaces (Some exampleMatcher) (Returns [exampleDetection])
      (Returns [exampleDescribed [0, 0], exampleDescribed [0, 1]])) = [Some 1, Some 0]"
    by (auto simp: list_all2_Cons1 scored_def exampleDescribed_def d0 d1)
  with ne thr show ?thesis by simp
qed

section \<open>Properties of the component\<close>

lemma alertFace_frame:
  "detections (alertFace now s face) = detections s \<and>
   drawn (alertFace now s face) = drawn s \<and>
   faceHistory (alertFace now s face) = faceHistory s \<and>
   isStarted (alertFace now s face) = isStarted s"
  by (simp add: alertFace_def)

lemma alertFace_spoken:
  "\<exists>new. spoken (alertFace now s face) = spoken s @ new \<and> set new \<subseteq> {utteranceText face}"
  by (simp add: alertFace_def)

lemma foldl_alertFace_frame:
  "detections (foldl (alertFace now) s faces) = detections s \<and>
   drawn (foldl (alertFace now) s faces) = drawn s \<and>
   faceHistory (foldl (alertFace now) s faces) = faceHistory s \<and>
   isStarted (foldl (alertFace now) s faces) = isStarted s"
  by (induction faces arbitrary: s) (simp_all add: alertFace_frame)

lemma foldl_alertFace_spoken:
  "\<exists>new. spoken (foldl (alertFace now) s faces) = spoken s @ new \<and>
     set new \<subseteq> utteranceText ` set faces"
proof (induction faces arbitrary: s)
  case Nil
  then show ?case by simp
next
  case (Cons face faces)
  from alertFace_spoken [of now s face] obtain n1 where
    n1: "spoken (alertFace now s face) = spoken s @ n1" "set n1 \<subseteq> {utteranceText face}" by auto
  from Cons.IH [of "alertFace now s face"] obtain n2 where
    n2: "spoken (foldl (alertFace now) (alertFace now s face) faces) =
         spoken (alertFace now s face) @ n2" "set n2 \<subseteq> utteranceText ` set faces" by auto
  have "spoken (foldl (alertFace now) s (face # faces)) = spoken s @ (n1 @ n2)"
    using n1(1) n2(1) by simp
  moreover have "set (n1 @ n2) \<subseteq> utteranceText ` set (face # faces)"
    using n1(2) n2(2) by auto
  ultimately show ?case by blast
qed

lemma handleAudioAlerts_frame:
  "detections (handleAudioAlerts muted now faces s) = detections s \<and>
   drawn (handleAudioAlerts muted now faces s) = drawn s \<and>
   faceHistory (handleAudioAlerts muted now faces s) = faceHistory s \<and>
   isStarted (handleAudioAlerts muted now faces s) = isStarted s"
  by (simp add: handleAudioAlerts_def foldl_alertFace_frame)

lemma handleAudioAlerts_spoken:
  "\<exists>new. spoken (handleAudioAlerts muted now faces s) = spoken s @ new \<and>
     set new \<subseteq> utteranceText ` set faces"
  using foldl_alertFace_spoken [of now s faces]
  by (auto simp: handleAudioAlerts_def)

lemma detectFaces_resume_fields:
  "detections (detectFaces_resume c e s) = filterFaces (c_confidence c) (env_recognizedFaces e)"
  "drawn (detectFaces_resume c e s) =
     drawn s @ [filterFaces (c_confidence c) (env_recognizedFaces e)]"
  "faceHistory (detectFaces_resume c e s) =
     (if filterFaces (c_confidence c) (env_recognizedFaces e) = [] then faceHistory s
      else take 10 (map (historyEntry (env_timestamp e))
             (filterFaces (c_confidence c) (env_recognizedFaces e)) @ faceHistory s))"
  "isStarted (detectFaces_resume c e s) = isStarted s"
  by (simp_all add: detectFaces_resume_def Let_def handleAudioAlerts_frame drawFaces_def
      updateFaceHistory_def)

lemma detectFaces_resume_spoken:
  "\<exists>new. spoken (detectFaces_resume c e s) = spoken s @ new \<and>
     set new \<subseteq> utteranceText ` set (filterFaces (c_confidence c) (env_recognizedFaces e))"
proof -
  let ?ff = "filterFaces (c_confidence c) (env_recognizedFaces e)"
  have "spoken (detectFaces_resume c e s) =
      spoken (handleAudioAlerts (c_isMuted c) (env_now e) ?ff
        (drawFaces ?ff (s\<lparr>detections := ?ff\<rparr>)))"
    by (simp add: detectFaces_resume_def Let_def)
  moreover have "spoken (drawFaces ?ff (s\<lparr>detections := ?ff\<rparr>)) = spoken s"
    by (simp add: drawFaces_def)
  ultimately show ?thesis
    using handleAudioAlerts_spoken [of "c_isMuted c" "env_now e" ?ff
      "drawFaces ?ff (s\<lparr>detections := ?ff\<rparr>)"]
    by simp
qed

lemma passes_score: "passes t f \<Longrightarrow> \<exists>sc. rf_score f = Some sc \<and> t < sc"
  by (auto simp: passes_def split: option.splits)

lemma filterFaces_mono:
  "t \<le> t' \<Longrightarrow> subseq (filterFaces t' faces) (filterFaces t faces)"
proof -
  assume le: "t \<le> t'"
  have "filterFaces t' faces = filter (passes t') (filterFaces t faces)"
    unfolding filterFaces_def filter_filter
    by (rule filter_cong) (use le in \<open>auto simp: passes_def split: option.splits\<close>)
  then show ?thesis by simp
qed

section \<open>Claims about the detection cycle\<close>

text \<open>
  C2. For every confidence threshold (in particular every \<open>t\<close> in [0,1]) and every
  list of recognized faces, only faces whose similarity score is at least the threshold
  pass the filter, and the filtered list is what a detection cycle stores, draws, alerts
  on and records in the history; the filtered list is monotone in the threshold: raising
  it never adds a face.
\<close>

theorem confidence_filter:
  "(\<forall>f\<in>set (filterFaces (c_confidence c) (env_recognizedFaces e)).
      f \<in> set (env_recognizedFaces e) \<and> (\<exists>sc. rf_score f = Some sc \<and> c_confidence c \<le> sc))
   \<and> detections (detectFaces_resume c e s) = filterFaces (c_confidence c) (env_recognizedFaces e)
   \<and> drawn (detectFaces_resume c e s) =
        drawn s @ [filterFaces (c_confidence c) (env_recognizedFaces e)]
   \<and> (\<exists>new. spoken (detectFaces_resume c e s) = spoken s @ new \<and>
         set new \<subseteq> utteranceText ` set (filterFaces (c_confidence c) (env_recognizedFaces e)))
   \<and> faceHistory (detectFaces_resume c e s) =
        (if filterFaces (c_confidence c) (env_recognizedFaces e) = [] then faceHistory s
         else take 10 (map (historyEntry (env_timestamp e))
                (filterFaces (c_confidence c) (env_recognizedFaces e)) @ faceHistory s))
   \<and> (\<forall>t t'. t \<le> t' \<longrightarrow>
         subseq (filterFaces t' (env_recognizedFaces e)) (filterFaces t (env_recognizedFaces e)))"
proof -
  have a: "\<forall>f\<in>set (filterFaces (c_confidence c) (env_recognizedFaces e)).
      f \<in> set (env_recognizedFaces e) \<and> (\<exists>sc. rf_score f = Some sc \<and> c_confidence c \<le> sc)"
    using passes_score by (fastforce simp: filterFaces_def)
  show ?thesis
    using a detectFaces_resume_fields(1-3) [of c e s] detectFaces_resume_spoken [of c e s]
      filterFaces_mono
    by presburger
qed

theorem confidence_filter_witness:
  "ashalFace \<in> set (filterFaces (c_confidence runningClosure)
       (env_recognizedFaces (exampleEnv [ashalFace, weakFace] 1000))) \<and>
   weakFace \<notin> set (filterFaces (c_confidence runningClosure)
       (env_recognizedFaces (exampleEnv [ashalFace, weakFace] 1000))) \<and>
   rf_score ashalFace = Some 0.9 \<and> c_confidence runningClosure \<le> 0.9 \<and>
   (0.2::real) \<le> 0.5 \<and>
   subseq (filterFaces 0.5 (env_recognizedFaces (exampleEnv [ashalFace, weakFace] 1000)))
          (filterFaces 0.2 (env_recognizedFaces (exampleEnv [ashalFace, weakFace] 1000)))"
proof -
  let ?e = "exampleEnv [ashalFace, weakFace] 1000"
  have m: "ashalFace \<in> set (filterFaces (c_confidence runningClosure) (env_recognizedFaces ?e))"
    and w: "weakFace \<notin> set (filterFaces (c_confidence runningClosure) (env_recognizedFaces ?e))"
    by (simp_all add: filterFaces_def passes_def ashalFace_def weakFace_def runningClosure_def
        exampleEnv_def)
  have le: "(0.2::real) \<le> 0.5" by simp
  note th = confidence_filter [of runningClosure ?e runningComponent]
  from th m have "\<exists>sc. rf_score ashalFace = Some sc \<and> c_confidence runningClosure \<le> sc"
    by blast
  then have sc: "rf_score ashalFace = Some 0.9 \<and> c_confidence runningClosure \<le> 0.9"
    by (auto simp: ashalFace_def)
  from th le have "subseq (filterFaces 0.5 (env_recognizedFaces ?e))
          (filterFaces 0.2 (env_recognizedFaces ?e))" by blast
  with m w sc le show ?thesis by blast
qed

section \<open>Detection without a matcher\<close>

lemma recognizeFaces_no_matcher:
  "\<forall>f\<in>set (recognizeFaces None dets dds).
      rf_name f = ''Face Detected'' \<and> rf_category f = cat_unknown \<and> rf_score f = None"
  by (auto simp: recognizeFaces_def basicFace_def split: outcome.splits)

lemma filterFaces_scoreless:
  "\<forall>f\<in>set faces. rf_score f = None \<Longrightarrow> filterFaces t faces = []"
  by (auto simp: filterFaces_def passes_def filter_empty_conv)

lemma detectFaces_nothing:
  assumes "filterFaces (c_confidence c) faces = []"
  shows "detectFaces c (e\<lparr>env_recognizedFaces := faces\<rparr>) s =
     (if detectFaces_enter c e then s\<lparr>detections := [], drawn := drawn s @ [[]]\<rparr> else s)"
  using assms
  by (simp add: detectFaces_def detectFaces_enter_def detectFaces_resume_def drawFaces_def
      handleAudioAlerts_def)

text \<open>
  C9. When no matcher has been built, \<open>recognizeFaces\<close> returns the empty list (older
  service) or entries named \<open>Face Detected\<close> of category \<open>unknown\<close> without a score
  (current service); the caller's filter removes every one of them, so a detection cycle
  stores and draws the empty list, speaks nothing and leaves the history as it was,
  whatever the detector found.
\<close>

theorem detection_only_renders_nothing:
  "(\<forall>f\<in>set (recognizeFaces None dets dds).
      rf_name f = ''Face Detected'' \<and> rf_category f = cat_unknown \<and> rf_score f = None)
   \<and> recognizeFaces_old None dds = []
   \<and> filterFaces (c_confidence c) (recognizeFaces None dets dds) = []
   \<and> detectFaces c (e\<lparr>env_recognizedFaces := recognizeFaces None dets dds\<rparr>) s =
       (if detectFaces_enter c e then s\<lparr>detections := [], drawn := drawn s @ [[]]\<rparr> else s)
   \<and> detectFaces c (e\<lparr>env_recognizedFaces := recognizeFaces_old None dds\<rparr>) s =
       (if detectFaces_enter c e then s\<lparr>detections := [], drawn := drawn s @ [[]]\<rparr> else s)"
proof -
  have sl: "\<forall>f\<in>set (recognizeFaces None dets dds). rf_score f = None"
    using recognizeFaces_no_matcher by blast
  have f1: "filterFaces (c_confidence c) (recognizeFaces None dets dds) = []"
    using sl by (rule filterFaces_scoreless)
  have old: "recognizeFaces_old None dds = []" by (simp add: recognizeFaces_old_def)
  have f2: "filterFaces (c_confidence c) (recognizeFaces_old None dds) = []"
    by (simp add: old filterFaces_def)
  show ?thesis
    using recognizeFaces_no_matcher [of dets dds] old f1
      detectFaces_nothing [OF f1, of e s] detectFaces_nothing [OF f2, of e s]
    by presburger
qed

theorem detection_only_renders_nothing_witness:
  "basicFace exampleDetection \<in> set (recognizeFaces None (Returns [exampleDetection]) Throws) \<and>
   rf_score (basicFace exampleDetection) = None \<and>
   detectFaces_enter runningClosure (exampleEnv [] 1000) \<and>
   detections (detectFaces runningClosure
     ((exampleEnv [] 1000)\<lparr>env_recognizedFaces :=
        recognizeFaces None (Returns [exampleDetection]) Throws\<rparr>) runningComponent) = []"
proof -
  have m: "basicFace exampleDetection \<in> set (recognizeFaces None (Returns [exampleDetection]) Throws)"
    by (simp add: recognizeFaces_def)
  have en: "detectFaces_enter runningClosure (exampleEnv [] 1000)"
    by (simp add: detectFaces_enter_def runningClosure_def exampleEnv_def)
  note th = detection_only_renders_nothing [of "Returns [exampleDetection]" Throws
      runningClosure "exampleEnv [] 1000" runningComponent]
  from th m have "rf_score (basicFace exampleDetection) = None" by blast
  moreover from th en have "detections (detectFaces runningClosure
     ((exampleEnv [] 1000)\<lparr>env_recognizedFaces :=
        recognizeFaces None (Returns [exampleDetection]) Throws\<rparr>) runningComponent) = []"
    by simp
  ultimately show ?thesis using m en by blast
qed

section \<open>The face history\<close>

lemma take_append_take: "take n (xs @ take n ys) = take n (xs @ ys)"
  by (simp add: min_def)

lemma detectFaces_history:
  "faceHistory (detectFaces c e s) =
     (if tickEntries (c, e) = [] then faceHistory s
      else take 10 (tickEntries (c, e) @ faceHistory s))"
  by (simp add: detectFaces_def tickEntries_def detectFaces_resume_fields)

lemma detectFaces_history_step:
  "length (faceHistory s) \<le> 10 \<Longrightarrow>
   faceHistory (detectFaces c e s) = take 10 (tickEntries (c, e) @ faceHistory s)"
  by (simp add: detectFaces_history)

lemma runTicks_history:
  "length (faceHistory s) \<le> 10 \<Longrightarrow>
   faceHistory (runTicks ts s) = take 10 (concat (rev (map tickEntries ts)) @ faceHistory s)"
proof (induction ts arbitrary: s)
  case Nil
  then show ?case by simp
next
  case (Cons t ts)
  have step: "faceHistory (detectFaces (fst t) (snd t) s) = take 10 (tickEntries t @ faceHistory s)"
    using detectFaces_history_step [OF Cons.prems, of "fst t" "snd t"] by simp
  then have "length (faceHistory (detectFaces (fst t) (snd t) s)) \<le> 10" by simp
  from Cons.IH [OF this] step
  have "faceHistory (runTicks (t # ts) s) =
      take 10 (concat (rev (map tickEntries ts)) @ take 10 (tickEntries t @ faceHistory s))"
    by simp
  then show ?case by (simp only: take_append_take) simp
qed

lemma length_concat_nonempty:
  "\<forall>xs\<in>set xss. xs \<noteq> [] \<Longrightarrow> length xss \<le> length (concat xss)"
proof (induction xss)
  case Nil
  then show ?case by simp
next
  case (Cons xs xss)
  then have "xs \<noteq> []" and "length xss \<le> length (concat xss)" by auto
  then show ?case by (cases xs) auto
qed

text \<open>The same for the object-detector variant.\<close>

lemma handleAudioAlerts_od_frame:
  "od_faceHistory (handleAudioAlerts_od muted now faces s) = od_faceHistory s \<and>
   od_detections (handleAudioAlerts_od muted now faces s) = od_detections s \<and>
   od_drawn (handleAudioAlerts_od muted now faces s) = od_drawn s \<and>
   od_isStarted (handleAudioAlerts_od muted now faces s) = od_isStarted s"
  by (simp add: handleAudioAlerts_od_def speak_od_def Let_def)

lemma detectFaces_od_history:
  "od_faceHistory (detectFaces_od c e s) =
     (if tickEntries_od (c, e) = [] then od_faceHistory s
      else take 10 (tickEntries_od (c, e) @ od_faceHistory s))"
  by (simp add: detectFaces_od_def detectFaces_od_resume_def tickEntries_od_def Let_def
      handleAudioAlerts_od_frame drawFaces_od_def updateFaceHistory_def split: outcome.splits)

lemma detectFaces_od_history_step:
  "length (od_faceHistory s) \<le> 10 \<Longrightarrow>
   od_faceHistory (detectFaces_od c e s) = take 10 (tickEntries_od (c, e) @ od_faceHistory s)"
  by (simp add: detectFaces_od_history)

lemma runTicks_od_history:
  "length (od_faceHistory s) \<le> 10 \<Longrightarrow>
   od_faceHistory (runTicks_od ts s) =
     take 10 (concat (rev (map tickEntries_od ts)) @ od_faceHistory s)"
proof (induction ts arbitrary: s)
  case Nil
  then show ?case by simp
next
  case (Cons t ts)
  have step: "od_faceHistory (detectFaces_od (fst t) (snd t) s) =
      take 10 (tickEntries_od t @ od_faceHistory s)"
    using detectFaces_od_history_step [OF Cons.prems, of "fst t" "snd t"] by simp
  then have "length (od_faceHistory (detectFaces_od (fst t) (snd t) s)) \<le> 10" by simp
  from Cons.IH [OF this] step
  have "od_faceHistory (runTicks_od (t # ts) s) =
      take 10 (concat (rev (map tickEntries_od ts)) @ take 10 (tickEntries_od t @ od_faceHistory s))"
    by simp
  then show ?case by (simp only: take_append_take) simp
qed

text \<open>
  C6. Every history update keeps the list at 10 entries or fewer and puts the new entries
  in front of the old ones; after any sequence of ticks the history is the first 10 of
  all entries, newest first; and after more than 10 ticks that each yield at least one
  face it has exactly 10 entries, the 10 most recent, newest first. This holds for the
  face-api variant (one entry per face) and for the object-detector variant (one entry
  per cycle).
\<close>

theorem history_cap:
  assumes "length (faceHistory s) \<le> 10"
  shows "(length (faceHistory (detectFaces c e s)) \<le> 10
    \<and> faceHistory (detectFaces c e s) = take 10 (tickEntries (c, e) @ faceHistory s)
    \<and> faceHistory (runTicks ts s) = take 10 (concat (rev (map tickEntries ts)) @ faceHistory s)
    \<and> (10 < length ts \<and> (\<forall>t\<in>set ts. tickEntries t \<noteq> []) \<longrightarrow>
         length (faceHistory (runTicks ts s)) = 10 \<and>
         faceHistory (runTicks ts s) = take 10 (concat (rev (map tickEntries ts)))))
    \<and> (length (od_faceHistory so) \<le> 10 \<longrightarrow>
         length (od_faceHistory (detectFaces_od oc oe so)) \<le> 10
       \<and> od_faceHistory (detectFaces_od oc oe so)
           = take 10 (tickEntries_od (oc, oe) @ od_faceHistory so)
       \<and> od_faceHistory (runTicks_od ots so)
           = take 10 (concat (rev (map tickEntries_od ots)) @ od_faceHistory so)
       \<and> (10 < length ots \<and> (\<forall>t\<in>set ots. tickEntries_od t \<noteq> []) \<longrightarrow>
            length (od_faceHistory (runTicks_od ots so)) = 10 \<and>
            od_faceHistory (runTicks_od ots so)
              = take 10 (concat (rev (map tickEntries_od ots)))))"
proof -
  have a: "faceHistory (detectFaces c e s) = take 10 (tickEntries (c, e) @ faceHistory s)"
    using assms by (rule detectFaces_history_step)
  then have b: "length (faceHistory (detectFaces c e s)) \<le> 10" by simp
  have r: "faceHistory (runTicks ts s) = take 10 (concat (rev (map tickEntries ts)) @ faceHistory s)"
    using assms by (rule runTicks_history)
  have d: "length (faceHistory (runTicks ts s)) = 10 \<and>
         faceHistory (runTicks ts s) = take 10 (concat (rev (map tickEntries ts)))"
    if "10 < length ts" and "\<forall>t\<in>set ts. tickEntries t \<noteq> []"
  proof -
    have "\<forall>xs\<in>set (rev (map tickEntries ts)). xs \<noteq> []" using that(2) by auto
    from length_concat_nonempty [OF this] that(1)
    have "10 < length (concat (rev (map tickEntries ts)))" by simp
    then show ?thesis using r by simp
  qed
  from a b r d have faceapi: "length (faceHistory (detectFaces c e s)) \<le> 10
    \<and> faceHistory (detectFaces c e s) = take 10 (tickEntries (c, e) @ faceHistory s)
    \<and> faceHistory (runTicks ts s) = take 10 (concat (rev (map tickEntries ts)) @ faceHistory s)
    \<and> (10 < length ts \<and> (\<forall>t\<in>set ts. tickEntries t \<noteq> []) \<longrightarrow>
         length (faceHistory (runTicks ts s)) = 10 \<and>
         faceHistory (runTicks ts s) = take 10 (concat (rev (map tickEntries ts))))"
    by blast
  have detector: "length (od_faceHistory (detectFaces_od oc oe so)) \<le> 10
       \<and> od_faceHistory (detectFaces_od oc oe so)
           = take 10 (tickEntries_od (oc, oe) @ od_faceHistory so)
       \<and> od_faceHistory (runTicks_od ots so)
           = take 10 (concat (rev (map tickEntries_od ots)) @ od_faceHistory so)
       \<and> (10 < length ots \<and> (\<forall>t\<in>set ots. tickEntries_od t \<noteq> []) \<longrightarrow>
            length (od_faceHistory (runTicks_od ots so)) = 10 \<and>
            od_faceHistory (runTicks_od ots so)
              = take 10 (concat (rev (map tickEntries_od ots))))"
    if inv: "length (od_faceHistory so) \<le> 10"
  proof -
    have oa: "od_faceHistory (detectFaces_od oc oe so)
        = take 10 (tickEntries_od (oc, oe) @ od_faceHistory so)"
      using inv by (rule detectFaces_od_history_step)
    then have ob: "length (od_faceHistory (detectFaces_od oc oe so)) \<le> 10" by simp
    have or: "od_faceHistory (runTicks_od ots so)
        = take 10 (concat (rev (map tickEntries_od ots)) @ od_faceHistory so)"
      using inv by (rule runTicks_od_history)
    have od: "length (od_faceHistory (runTicks_od ots so)) = 10 \<and>
         od_faceHistory (runTicks_od ots so) = take 10 (concat (rev (map tickEntries_od ots)))"
      if "10 < length ots" and "\<forall>t\<in>set ots. tickEntries_od t \<noteq> []"
    proof -
      have "\<forall>xs\<in>set (rev (map tickEntries_od ots)). xs \<noteq> []" using that(2) by auto
      from length_concat_nonempty [OF this] that(1)
      have "10 < length (concat (rev (map tickEntries_od ots)))" by simp
      then show ?thesis using or by simp
    qed
    from oa ob or od show ?thesis by blast
  qed
  from faceapi detector show ?thesis by blast
qed

theorem history_cap_witness:
  "length (faceHistory initialComponent) \<le> 10 \<and>
   10 < length (replicate 11 (runningClosure, exampleEnv [ashalFace] 1000)) \<and>
   tickEntries (runningClosure, exampleEnv [ashalFace] 1000) = [''ASHAL detected at 10:15:30 AM''] \<and>
   faceHistory (runTicks (replicate 11 (runningClosure, exampleEnv [ashalFace] 1000)) initialComponent)
     = replicate 10 ''ASHAL detected at 10:15:30 AM'' \<and>
   length (od_faceHistory initialObjectComponent) \<le> 10 \<and>
   tickEntries_od (runningObjectClosure, objectEnv 1000) = [''Face detected at 10:15:30 AM''] \<and>
   od_faceHistory (runTicks_od (replicate 11 (runningObjectClosure, objectEnv 1000))
       initialObjectComponent)
     = replicate 10 ''Face detected at 10:15:30 AM''"
proof -
  let ?t = "(runningClosure, exampleEnv [ashalFace] 1000)"
  let ?o = "(runningObjectClosure, objectEnv 1000)"
  have h: "length (faceHistory initialComponent) \<le> 10" by (simp add: initialComponent_def)
  have n: "10 < length (replicate 11 ?t)" by simp
  have te: "tickEntries ?t = [''ASHAL detected at 10:15:30 AM'']"
    by (simp add: tickEntries_def detectFaces_enter_def runningClosure_def exampleEnv_def
        filterFaces_def passes_def ashalFace_def historyEntry_def)
  have ne: "\<forall>t\<in>set (replicate 11 ?t). tickEntries t \<noteq> []" using te by simp
  have oh: "length (od_faceHistory initialObjectComponent) \<le> 10"
    by (simp add: initialObjectComponent_def)
  have on: "10 < length (replicate 11 ?o)" by simp
  have ote: "tickEntries_od ?o = [''Face detected at 10:15:30 AM'']"
    by (simp add: tickEntries_od_def detectFaces_od_enter_def runningObjectClosure_def
        objectEnv_def onePerson_def faceDetectionsOf_def personAt_def)
  have one: "\<forall>t\<in>set (replicate 11 ?o). tickEntries_od t \<noteq> []" using ote by simp
  note th = history_cap [OF h, of runningClosure "exampleEnv [ashalFace] 1000"
      "replicate 11 ?t" initialObjectComponent runningObjectClosure "objectEnv 1000"
      "replicate 11 ?o"]
  have c1: "concat (rev (map tickEntries (replicate 11 ?t))) =
      replicate 11 ''ASHAL detected at 10:15:30 AM''"
    unfolding map_replicate rev_replicate te by (simp add: numeral_eq_Suc)
  have c2: "concat (rev (map tickEntries_od (replicate 11 ?o))) =
      replicate 11 ''Face detected at 10:15:30 AM''"
    unfolding map_replicate rev_replicate ote by (simp add: numeral_eq_Suc)
  from th n ne
  have "faceHistory (runTicks (replicate 11 ?t) initialComponent) =
      take 10 (concat (rev (map tickEntries (replicate 11 ?t))))" by blast
  with c1 have r1: "faceHistory (runTicks (replicate 11 ?t) initialComponent) =
      replicate 10 ''ASHAL detected at 10:15:30 AM''" by simp
  from th oh on one
  have "od_faceHistory (runTicks_od (replicate 11 ?o) initialObjectComponent) =
      take 10 (concat (rev (map tickEntries_od (replicate 11 ?o))))" by blast
  with c2 have r2: "od_faceHistory (runTicks_od (replicate 11 ?o) initialObjectComponent) =
      replicate 10 ''Face detected at 10:15:30 AM''" by simp
  from h n te r1 oh ote r2 show ?thesis by blast
qed

section \<open>Audio alerts\<close>









section \<open>Stopping the camera\<close>

lemma late_result_kept:
  "detections (detectFaces_resume c e (stopCamera s)) =
     filterFaces (c_confidence c) (env_recognizedFaces e) \<and>
   drawn (detectFaces_resume c e (stopCamera s)) =
     drawn s @ [filterFaces (c_confidence c) (env_recognizedFaces e)] \<and>
   \<not> isStarted (detectFaces_resume c e (stopCamera s))"
  by (simp add: detectFaces_resume_fields stopCamera_def)











section \<open>Loading the models\<close>

text \<open>
  C4. No reference image yields a face: \<open>loadReferenceFaces\<close> warns that recognition
  will be limited to detection only, builds no matcher and returns \<open>false\<close>;
  \<open>loadModels\<close> takes that for a failure and shows the error toast. The service still
  falls back to \<open>Face Detected\<close> entries when no matcher exists.
\<close>

theorem no_reference_faces_reported_as_failure:
  "lr_returned (loadReferenceFaces noFaceReferences None) = False \<and>
   lr_faceMatcher (loadReferenceFaces noFaceReferences None) = None \<and>
   last (lr_console (loadReferenceFaces noFaceReferences None)) =
     console_warn ''No reference faces could be loaded. Face recognition will be limited to detection only.'' \<and>
   toasts (mr_component (loadModels True noFaceReferences None initialComponent)) =
     [toast_info ''Loading face recognition models...'',
      toast_error ''Failed to load face recognition models''] \<and>
   last (mr_console (loadModels True noFaceReferences None initialComponent)) =
     console_error ''Error loading models:'' \<and>
   mr_faceMatcher (loadModels True noFaceReferences None initialComponent) = None \<and>
   recognizeFaces None (Returns [exampleDetection]) Throws = [basicFace exampleDetection] \<and>
   rf_name (basicFace exampleDetection) = ''Face Detected''"
proof -
  have e: "List.map_filter (loaded noFaceReferences) knownFaces = []"
    by (simp add: knownFaces_def loaded_def noFaceReferences_def List.map_filter_simps)
  note r = loadReferenceFaces_empty [OF e, of None]
  show ?thesis
    by (simp add: r loadModels_def Let_def initialComponent_def recognizeFaces_def basicFace_def)
qed

end
